theory Spec2Isabelle
  imports Complex_Main
begin

section \<open>Numbers, colours and vectors\<close>

text \<open>
  The program is JavaScript on top of the three.js library. A JavaScript number is modelled
  as a \<^typ>\<open>real\<close>, as the specification's data model does (\<open>timeOfDay: real\<close>,
  \<open>position: vec3\<close> of reals): rounding, NaN and the infinities of IEEE doubles are outside
  the model. \<open>Math.sin\<close>, \<open>Math.cos\<close>, \<open>Math.sqrt\<close> and \<open>Math.pow\<close> are
  \<^const>\<open>sin\<close>, \<^const>\<open>cos\<close>, \<^const>\<open>sqrt\<close> and \<^const>\<open>powr\<close>.

  One constant is kept as the double it is. \<open>Math.PI\<close> is not \<^const>\<open>pi\<close> but the
  double nearest to it, \<open>884279719003555 / 2^48\<close>, which lies a little below \<^const>\<open>pi\<close>.
  The sun angle at 18 o'clock is exactly \<open>Math.PI\<close>, and whether the sun is shown there
  is the sign of the sine of that number.

  The few three.js operations the program calls are written out below from the library's
  own arithmetic, each under the name it has there.
\<close>

definition Math_PI :: real where
  "Math_PI = 884279719003555 / 281474976710656"

subsection \<open>THREE.Color and THREE.MathUtils.lerp\<close>

record color =
  red :: real
  green :: real
  blue :: real

text \<open>
  \<open>new THREE.Color(hex)\<close>: the three bytes of the hexadecimal triplet, scaled to \<open>[0,1]\<close>
  and then taken from sRGB into the linear working colour space, channel by channel, by
  the \<open>SRGBToLinear\<close> of three.js (its colour management is on in the releases that have
  the \<open>renderer.outputColorSpace\<close> that \<open>main.js\<close> sets). No statement below depends on
  the channel values of a preset.
\<close>

definition SRGBToLinear :: "real \<Rightarrow> real" where
  "SRGBToLinear c =
     (if c < 0.04045 then c * 0.0773993808
      else (c * 0.9478672986 + 0.0521327014) powr 2.4)"

definition Color :: "nat \<Rightarrow> color" where
  "Color hex = \<lparr> red = SRGBToLinear (real (hex div 65536 mod 256) / 255),
                 green = SRGBToLinear (real (hex div 256 mod 256) / 255),
                 blue = SRGBToLinear (real (hex mod 256) / 255) \<rparr>"

text \<open>\<open>THREE.MathUtils.lerp(x, y, t) = (1 - t) * x + t * y\<close>.\<close>

definition lerp :: "real \<Rightarrow> real \<Rightarrow> real \<Rightarrow> real" where
  "lerp x y t = (1 - t) * x + t * y"

text \<open>
  \<open>new THREE.Color().lerpColors(c1, c2, alpha)\<close>: each channel is
  \<open>c1.ch + (c2.ch - c1.ch) * alpha\<close>.
\<close>

definition Color_lerpColors :: "color \<Rightarrow> color \<Rightarrow> real \<Rightarrow> color" where
  "Color_lerpColors c1 c2 alpha =
     \<lparr> red = red c1 + (red c2 - red c1) * alpha,
       green = green c1 + (green c2 - green c1) * alpha,
       blue = blue c1 + (blue c2 - blue c1) * alpha \<rparr>"

subsection \<open>THREE.Vector3, THREE.Euler, THREE.Matrix4 and THREE.Quaternion\<close>

record vec3 =
  vx :: real
  vy :: real
  vz :: real

definition Vector3 :: "real \<Rightarrow> real \<Rightarrow> real \<Rightarrow> vec3" where
  "Vector3 a b c = \<lparr> vx = a, vy = b, vz = c \<rparr>"

definition add_vec :: "vec3 \<Rightarrow> vec3 \<Rightarrow> vec3" where
  "add_vec v w = Vector3 (vx v + vx w) (vy v + vy w) (vz v + vz w)"

definition sub_vec :: "vec3 \<Rightarrow> vec3 \<Rightarrow> vec3" where
  "sub_vec v w = Vector3 (vx v - vx w) (vy v - vy w) (vz v - vz w)"

definition multiplyScalar :: "vec3 \<Rightarrow> real \<Rightarrow> vec3" where
  "multiplyScalar v s = Vector3 (vx v * s) (vy v * s) (vz v * s)"

definition length_vec :: "vec3 \<Rightarrow> real" where
  "length_vec v = sqrt (vx v * vx v + vy v * vy v + vz v * vz v)"

text \<open>
  \<open>normalize()\<close> is \<open>divideScalar(length() || 1)\<close>, and \<open>divideScalar(s)\<close> is
  \<open>multiplyScalar(1 / s)\<close>: a zero length is replaced by 1.
\<close>

definition normalize_vec :: "vec3 \<Rightarrow> vec3" where
  "normalize_vec v =
     multiplyScalar v (1 / (if length_vec v = 0 then 1 else length_vec v))"

text \<open>
  \<open>Matrix4.makeRotationFromEuler\<close> for the order \<open>'XYZ'\<close>, followed by
  \<open>Vector3.applyMatrix4\<close>. The matrix has no translation and its last row is
  \<open>(0, 0, 0, 1)\<close>, so the perspective divisor \<open>w\<close> of \<open>applyMatrix4\<close> is \<open>1 / 1\<close>.
\<close>

definition applyRotationXYZ :: "vec3 \<Rightarrow> vec3 \<Rightarrow> vec3" where
  "applyRotationXYZ euler p =
     (let a = cos (vx euler); b = sin (vx euler);
          c = cos (vy euler); d = sin (vy euler);
          e = cos (vz euler); f = sin (vz euler);
          ae = a * e; af = a * f; be = b * e; bf = b * f;
          w = 1 / (0 * vx p + 0 * vy p + 0 * vz p + 1)
      in Vector3 ((c * e * vx p + (- c * f) * vy p + d * vz p + 0) * w)
                 (((af + be * d) * vx p + (ae - bf * d) * vy p + (- b * c) * vz p + 0) * w)
                 (((bf - ae * d) * vx p + (be + af * d) * vy p + a * c * vz p + 0) * w))"

text \<open>
  \<open>Vector3.applyEuler(new THREE.Euler(0, yaw, 0, 'YXZ'))\<close>: the Euler angles become the
  quaternion \<open>(qx, qy, qz, qw)\<close> of \<open>Quaternion.setFromEuler\<close> (order \<open>'YXZ'\<close>), which
  \<open>Vector3.applyQuaternion\<close> applies.
\<close>

definition applyEulerYXZ :: "vec3 \<Rightarrow> vec3 \<Rightarrow> vec3" where
  "applyEulerYXZ euler v =
     (let c1 = cos (vx euler / 2); c2 = cos (vy euler / 2); c3 = cos (vz euler / 2);
          s1 = sin (vx euler / 2); s2 = sin (vy euler / 2); s3 = sin (vz euler / 2);
          qx = s1 * c2 * c3 + c1 * s2 * s3;
          qy = c1 * s2 * c3 - s1 * c2 * s3;
          qz = c1 * c2 * s3 - s1 * s2 * c3;
          qw = c1 * c2 * c3 + s1 * s2 * s3;
          tx = 2 * (qy * vz v - qz * vy v);
          ty = 2 * (qz * vx v - qx * vz v);
          tz = 2 * (qx * vy v - qy * vx v)
      in Vector3 (vx v + qw * tx + qy * tz - qz * ty)
                 (vy v + qw * ty + qz * tx - qx * tz)
                 (vz v + qw * tz + qx * ty - qy * tx))"

section \<open>The day/night lighting engine (\<open>TimeOfDaySystem\<close>)\<close>

subsection \<open>State\<close>

record TimePreset =
  sky :: color
  sun :: color
  ambient :: color
  fog :: color
  sunIntensity :: real

record TimeColorPresets =
  night :: TimePreset
  dawn :: TimePreset
  morning :: TimePreset
  noon :: TimePreset
  afternoon :: TimePreset
  dusk :: TimePreset
  evening :: TimePreset

text \<open>
  The collaborators the engine writes into. Of the scene only the background and the colour
  of the fog matter; \<open>scene.fog\<close> may be \<open>null\<close>, which is \<^const>\<open>None\<close>.
\<close>

record Scene =
  background :: color
  fog_color :: "color option"

record DirectionalLight =
  light_color :: color
  intensity :: real
  light_position :: vec3

record HemisphereLight =
  hemi_color :: color
  groundColor :: color

record SunMesh =
  mesh_position :: vec3
  material_color :: color
  visible :: bool

record TimeOfDaySystem =
  scene :: Scene
  directionalLight :: DirectionalLight
  hemisphereLight :: HemisphereLight
  timeOfDay :: real
  timeSpeed :: real
  enabled :: bool
  sunIntensity :: real
  sunDistance :: real
  orbitRotation :: vec3
  sunMesh :: "SunMesh option"
  timeColorPresets :: TimeColorPresets

subsection \<open>Construction\<close>

definition createSunMesh :: "SunMesh" where
  "createSunMesh =
     \<lparr> mesh_position = Vector3 0 0 0, material_color = Color 0xfffaf0, visible = True \<rparr>"

definition defaultPresets :: "TimeColorPresets" where
  "defaultPresets =
     \<lparr> night = \<lparr> sky = Color 0x000000, sun = Color 0x4060ff, ambient = Color 0x202050,
                 fog = Color 0x000000, sunIntensity = 0.1 \<rparr>,
       dawn = \<lparr> sky = Color 0x000000, sun = Color 0xff9a56, ambient = Color 0xff8c69,
                fog = Color 0x000000, sunIntensity = 0.6 \<rparr>,
       morning = \<lparr> sky = Color 0x000000, sun = Color 0xfffacd, ambient = Color 0xfff8dc,
                   fog = Color 0x000000, sunIntensity = 1.2 \<rparr>,
       noon = \<lparr> sky = Color 0x000000, sun = Color 0xfffaf0, ambient = Color 0xffffff,
                fog = Color 0x000000, sunIntensity = 2.0 \<rparr>,
       afternoon = \<lparr> sky = Color 0x000000, sun = Color 0xffd700, ambient = Color 0xffefd5,
                     fog = Color 0x000000, sunIntensity = 1.5 \<rparr>,
       dusk = \<lparr> sky = Color 0x000000, sun = Color 0xff4500, ambient = Color 0xff7f50,
                fog = Color 0x000000, sunIntensity = 0.5 \<rparr>,
       evening = \<lparr> sky = Color 0x000000, sun = Color 0x4169e1, ambient = Color 0x483d8b,
                   fog = Color 0x000000, sunIntensity = 0.2 \<rparr> \<rparr>"

definition constructor ::
  "Scene \<Rightarrow> DirectionalLight \<Rightarrow> HemisphereLight \<Rightarrow> TimeOfDaySystem" where
  "constructor sc dl hl =
     \<lparr> scene = sc, directionalLight = dl, hemisphereLight = hl,
       timeOfDay = 12, timeSpeed = 10, enabled = False,
       sunIntensity = 0.8, sunDistance = 50,
       orbitRotation = Vector3 0 0 0,
       sunMesh = Some createSunMesh,
       timeColorPresets = defaultPresets \<rparr>"

text \<open>The scene and the two lights that \<open>main.js\<close> builds and hands to the constructor.\<close>

definition main_scene :: Scene where
  "main_scene = \<lparr> background = Color 0x000000, fog_color = Some (Color 0x000000) \<rparr>"

definition main_directionalLight :: DirectionalLight where
  "main_directionalLight =
     \<lparr> light_color = Color 0xffffff, intensity = 3.5, light_position = Vector3 10 20 10 \<rparr>"

definition main_hemisphereLight :: HemisphereLight where
  "main_hemisphereLight = \<lparr> hemi_color = Color 0x87CEEB, groundColor = Color 0x545454 \<rparr>"

definition main_timeOfDay :: TimeOfDaySystem where
  "main_timeOfDay = constructor main_scene main_directionalLight main_hemisphereLight"

subsection \<open>Colour interpolation\<close>

definition lerpColors :: "TimePreset \<Rightarrow> TimePreset \<Rightarrow> real \<Rightarrow> TimePreset" where
  "lerpColors preset1 preset2 t =
     \<lparr> sky = Color_lerpColors (sky preset1) (sky preset2) t,
       sun = Color_lerpColors (sun preset1) (sun preset2) t,
       ambient = Color_lerpColors (ambient preset1) (ambient preset2) t,
       fog = Color_lerpColors (fog preset1) (fog preset2) t,
       sunIntensity = lerp (TimePreset.sunIntensity preset1) (TimePreset.sunIntensity preset2) t \<rparr>"

definition getColorsForTime :: "TimeColorPresets \<Rightarrow> real \<Rightarrow> TimePreset" where
  "getColorsForTime presets time =
     (if time \<ge> 0 \<and> time < 5 then night presets
      else if time \<ge> 5 \<and> time < 7 then
        (let t = (time - 5) / 2 in lerpColors (night presets) (dawn presets) t)
      else if time \<ge> 7 \<and> time < 9 then
        (let t = (time - 7) / 2 in lerpColors (dawn presets) (morning presets) t)
      else if time \<ge> 9 \<and> time < 11 then
        (let t = (time - 9) / 2 in lerpColors (morning presets) (noon presets) t)
      else if time \<ge> 11 \<and> time < 15 then noon presets
      else if time \<ge> 15 \<and> time < 17 then
        (let t = (time - 15) / 2 in lerpColors (noon presets) (afternoon presets) t)
      else if time \<ge> 17 \<and> time < 19 then
        (let t = (time - 17) / 2 in lerpColors (afternoon presets) (dusk presets) t)
      else if time \<ge> 19 \<and> time < 21 then
        (let t = (time - 19) / 2 in lerpColors (dusk presets) (evening presets) t)
      else
        (let t = (time - 21) / 3 in lerpColors (evening presets) (night presets) t))"

subsection \<open>Sun placement and lighting\<close>

text \<open>
  \<open>sunPosition\<close> is the position that \<open>updateSunPosition\<close> computes first: the point of
  the base orbit in the X-Y plane, turned by the orbit rotation. (The source file also
  holds an earlier variant of the class with no orbit rotation, the sun at
  \<open>z = sunDistance * 0.5\<close> and visible when its \<open>y > 0\<close>; the variant modelled here is the
  one whose orbit setters \<open>main.js\<close> calls.)
\<close>

definition sunPosition :: "TimeOfDaySystem \<Rightarrow> real \<Rightarrow> vec3" where
  "sunPosition s time =
     (let sunAngle = ((time - 6) / 12) * Math_PI;
          x = cos sunAngle * sunDistance s;
          y = sin sunAngle * sunDistance s;
          z = 0
      in applyRotationXYZ (orbitRotation s) (Vector3 x y z))"

definition updateSunPosition :: "real \<Rightarrow> TimeOfDaySystem \<Rightarrow> TimeOfDaySystem" where
  "updateSunPosition time s =
     (let position = sunPosition s time;
          s1 = s\<lparr> directionalLight := (directionalLight s)\<lparr> light_position := position \<rparr> \<rparr>
      in case sunMesh s1 of
           None \<Rightarrow> s1
         | Some m \<Rightarrow>
             (let colors = getColorsForTime (timeColorPresets s1) time
              in s1\<lparr> sunMesh := Some (m\<lparr> mesh_position := position,
                                          material_color := sun colors,
                                          visible := (vy position > 0) \<rparr>) \<rparr>))"

definition updateLighting :: "TimeOfDaySystem \<Rightarrow> TimeOfDaySystem" where
  "updateLighting s =
     (let colors = getColorsForTime (timeColorPresets s) (timeOfDay s);
          sc = (scene s)\<lparr> background := sky colors \<rparr>;
          sc' = (case fog_color sc of None \<Rightarrow> sc
                 | Some _ \<Rightarrow> sc\<lparr> fog_color := Some (fog colors) \<rparr>);
          dl = (directionalLight s)\<lparr> light_color := sun colors,
                 intensity := TimePreset.sunIntensity colors * sunIntensity s \<rparr>;
          hl = (hemisphereLight s)\<lparr> hemi_color := sky colors, groundColor := ambient colors \<rparr>
      in updateSunPosition (timeOfDay s)
           (s\<lparr> scene := sc', directionalLight := dl, hemisphereLight := hl \<rparr>))"

subsection \<open>The clock\<close>

definition update :: "real \<Rightarrow> TimeOfDaySystem \<Rightarrow> TimeOfDaySystem" where
  "update deltaTime s =
     updateLighting
       (if enabled s then
          (let s1 = s\<lparr> timeOfDay := timeOfDay s + (deltaTime * timeSpeed s) / 3600 \<rparr>
           in if timeOfDay s1 \<ge> 24 then s1\<lparr> timeOfDay := timeOfDay s1 - 24 \<rparr> else s1)
        else s)"

definition setTime :: "real \<Rightarrow> TimeOfDaySystem \<Rightarrow> TimeOfDaySystem" where
  "setTime time s = updateLighting (s\<lparr> timeOfDay := time \<rparr>)"

definition setTimeSpeed :: "real \<Rightarrow> TimeOfDaySystem \<Rightarrow> TimeOfDaySystem" where
  "setTimeSpeed speed s = s\<lparr> timeSpeed := speed \<rparr>"

definition setSunIntensity :: "real \<Rightarrow> TimeOfDaySystem \<Rightarrow> TimeOfDaySystem" where
  "setSunIntensity i s = updateLighting (s\<lparr> sunIntensity := i \<rparr>)"

definition setEnabled :: "bool \<Rightarrow> TimeOfDaySystem \<Rightarrow> TimeOfDaySystem" where
  "setEnabled e s = s\<lparr> enabled := e \<rparr>"

definition setOrbitRotation ::
  "real \<Rightarrow> real \<Rightarrow> real \<Rightarrow> TimeOfDaySystem \<Rightarrow> TimeOfDaySystem" where
  "setOrbitRotation pitch yaw roll s =
     updateLighting (s\<lparr> orbitRotation := Vector3 pitch yaw roll \<rparr>)"

definition setOrbitPitch :: "real \<Rightarrow> TimeOfDaySystem \<Rightarrow> TimeOfDaySystem" where
  "setOrbitPitch radians s =
     updateLighting (s\<lparr> orbitRotation := (orbitRotation s)\<lparr> vx := radians \<rparr> \<rparr>)"

definition setOrbitYaw :: "real \<Rightarrow> TimeOfDaySystem \<Rightarrow> TimeOfDaySystem" where
  "setOrbitYaw radians s =
     updateLighting (s\<lparr> orbitRotation := (orbitRotation s)\<lparr> vy := radians \<rparr> \<rparr>)"

definition setOrbitRoll :: "real \<Rightarrow> TimeOfDaySystem \<Rightarrow> TimeOfDaySystem" where
  "setOrbitRoll radians s =
     updateLighting (s\<lparr> orbitRotation := (orbitRotation s)\<lparr> vz := radians \<rparr> \<rparr>)"

subsection \<open>The channels of a preset\<close>

text \<open>
  A preset holds thirteen numbers: three channels for each of its four colours, and the sun
  intensity. Continuity of the colour curve is continuity of each of them.
\<close>

datatype channel =
  SkyR | SkyG | SkyB | SunR | SunG | SunB | AmbientR | AmbientG | AmbientB
  | FogR | FogG | FogB | SunIntensity

fun channel_of :: "channel \<Rightarrow> TimePreset \<Rightarrow> real" where
  "channel_of SkyR p = red (sky p)"
| "channel_of SkyG p = green (sky p)"
| "channel_of SkyB p = blue (sky p)"
| "channel_of SunR p = red (sun p)"
| "channel_of SunG p = green (sun p)"
| "channel_of SunB p = blue (sun p)"
| "channel_of AmbientR p = red (ambient p)"
| "channel_of AmbientG p = green (ambient p)"
| "channel_of AmbientB p = blue (ambient p)"
| "channel_of FogR p = red (fog p)"
| "channel_of FogG p = green (fog p)"
| "channel_of FogB p = blue (fog p)"
| "channel_of SunIntensity p = TimePreset.sunIntensity p"

section \<open>The locomotion and camera engine (\<open>CameraController\<close>, \<open>Player\<close>)\<close>

subsection \<open>The camera controller\<close>

datatype mode = FIRST_PERSON | THIRD_PERSON | FREE_CAMERA

text \<open>
  Of the controller, the player reads the current mode and the yaw, and in free-camera mode
  moves the position of the camera. The rotation of the camera is its three Euler angles
  (the order \<open>'YXZ'\<close> that the controller sets is not recorded).
\<close>

record CameraController =
  camera_position :: vec3
  camera_rotation :: vec3
  currentMode :: mode
  yaw :: real
  pitch :: real

definition getForwardVector :: "CameraController \<Rightarrow> vec3" where
  "getForwardVector c = applyEulerYXZ (Vector3 0 (yaw c) 0) (Vector3 0 0 (- 1))"

definition getRightVector :: "CameraController \<Rightarrow> vec3" where
  "getRightVector c = applyEulerYXZ (Vector3 0 (yaw c) 0) (Vector3 1 0 0)"

definition new_CameraController :: CameraController where
  "new_CameraController =
     \<lparr> camera_position = Vector3 0 0 0, camera_rotation = Vector3 0 0 0,
       currentMode = FIRST_PERSON, yaw = 0, pitch = 0 \<rparr>"

text \<open>
  \<open>setMode\<close>: every value of \<^typ>\<open>mode\<close> is one of the three modes, and the two
  transitions it starts animate nothing (they name no target value).
\<close>

definition setMode :: "mode \<Rightarrow> CameraController \<Rightarrow> CameraController" where
  "setMode m c = c\<lparr> currentMode := m \<rparr>"

text \<open>
  \<open>CameraController.updateFreeCamera()\<close>: the free camera keeps its position and is turned
  by the yaw and the pitch.
\<close>

definition CameraController_updateFreeCamera :: "CameraController \<Rightarrow> CameraController" where
  "CameraController_updateFreeCamera c =
     c\<lparr> camera_rotation := Vector3 (pitch c) (yaw c) (vz (camera_rotation c)) \<rparr>"

subsection \<open>The player\<close>

record keys =
  forward :: bool
  backward :: bool
  left :: bool
  right :: bool
  jump :: bool
  up :: bool
  down :: bool
  sprint :: bool

record PlayerMesh =
  pm_position :: vec3
  pm_scale :: real
  pm_visible :: bool

record Player =
  position :: vec3
  velocity :: vec3
  speed :: real
  fastSpeed :: real
  jumpForce :: real
  gravity :: real
  isGrounded :: bool
  scale :: real
  eyeHeight :: real
  groundLevel :: real
  mesh :: PlayerMesh
  keys :: keys

definition no_keys :: keys where
  "no_keys = \<lparr> forward = False, backward = False, left = False, right = False,
               jump = False, up = False, down = False, sprint = False \<rparr>"

definition new_Player :: Player where
  "new_Player =
     \<lparr> position = Vector3 0 0 5, velocity = Vector3 0 0 0,
       speed = 0.30, fastSpeed = 0.60, jumpForce = 0.3, gravity = - 1.0,
       isGrounded = False, scale = 0.018, eyeHeight = 0.035, groundLevel = 0.30,
       mesh = \<lparr> pm_position = Vector3 0 0 0, pm_scale = 1, pm_visible = True \<rparr>,
       keys = no_keys \<rparr>"

definition setScale :: "real \<Rightarrow> Player \<Rightarrow> Player" where
  "setScale sc p = p\<lparr> scale := sc \<rparr>"

definition setEyeHeight :: "real \<Rightarrow> Player \<Rightarrow> Player" where
  "setEyeHeight h p = p\<lparr> eyeHeight := h \<rparr>"

definition setSpeed :: "real \<Rightarrow> Player \<Rightarrow> Player" where
  "setSpeed sp p = p\<lparr> speed := sp, fastSpeed := sp * 2 \<rparr>"

definition setGroundLevel :: "real \<Rightarrow> Player \<Rightarrow> Player" where
  "setGroundLevel level p =
     (let p1 = p\<lparr> groundLevel := level \<rparr>
      in if vy (position p1) < groundLevel p1
         then p1\<lparr> position := (position p1)\<lparr> vy := groundLevel p1 \<rparr> \<rparr>
         else p1)"

text \<open>
  \<open>CameraController.updateFirstPerson(player)\<close>: the camera is put at the eye level of the
  player and turned by the yaw and the pitch.
\<close>

definition updateFirstPerson :: "Player \<Rightarrow> CameraController \<Rightarrow> CameraController" where
  "updateFirstPerson p c =
     c\<lparr> camera_position := Vector3 (vx (position p)) (vy (position p) + eyeHeight p)
                                 (vz (position p)),
        camera_rotation := Vector3 (pitch c) (yaw c) (vz (camera_rotation c)) \<rparr>"

text \<open>The grounded integrator of the first-person and third-person modes.\<close>

definition updatePlayerMovement :: "real \<Rightarrow> CameraController \<Rightarrow> Player \<Rightarrow> Player" where
  "updatePlayerMovement dt c p =
     (let forwardV = getForwardVector c;
          rightV = getRightVector c;
          m0 = Vector3 0 0 0;
          m1 = (if forward (keys p) then add_vec m0 forwardV else m0);
          m2 = (if backward (keys p) then sub_vec m1 forwardV else m1);
          m3 = (if left (keys p) then sub_vec m2 rightV else m2);
          m4 = (if right (keys p) then add_vec m3 rightV else m3);
          m5 = (if length_vec m4 > 0 then normalize_vec m4 else m4);
          currentSpeed = (if sprint (keys p) then fastSpeed p else speed p);
          moveDirection = multiplyScalar m5 currentSpeed;
          v1 = (velocity p)\<lparr> vx := vx moveDirection, vz := vz moveDirection \<rparr>;
          v2 = v1\<lparr> vy := vy v1 + gravity p * dt \<rparr>;
          jumping = (jump (keys p) \<and> isGrounded p);
          v3 = (if jumping then v2\<lparr> vy := jumpForce p \<rparr> else v2);
          g3 = (if jumping then False else isGrounded p);
          pos = Vector3 (vx (position p) + vx v3 * dt)
                        (vy (position p) + vy v3 * dt)
                        (vz (position p) + vz v3 * dt)
      in if vy pos \<le> groundLevel p
         then p\<lparr> position := pos\<lparr> vy := groundLevel p \<rparr>,
                velocity := v3\<lparr> vy := 0 \<rparr>, isGrounded := True \<rparr>
         else p\<lparr> position := pos, velocity := v3, isGrounded := g3 \<rparr>)"

text \<open>
  The free-flight integrator: it moves the camera, and the player is put where the camera
  is.
\<close>

definition updateFreeCamera ::
  "real \<Rightarrow> CameraController \<Rightarrow> Player \<Rightarrow> Player \<times> CameraController" where
  "updateFreeCamera dt c p =
     (let forwardV = getForwardVector c;
          rightV = getRightVector c;
          m0 = Vector3 0 0 0;
          m1 = (if forward (keys p) then add_vec m0 forwardV else m0);
          m2 = (if backward (keys p) then sub_vec m1 forwardV else m1);
          m3 = (if left (keys p) then sub_vec m2 rightV else m2);
          m4 = (if right (keys p) then add_vec m3 rightV else m3);
          m5 = (if up (keys p) then m4\<lparr> vy := vy m4 + 1 \<rparr> else m4);
          m6 = (if down (keys p) then m5\<lparr> vy := vy m5 - 1 \<rparr> else m5);
          m7 = (if length_vec m6 > 0 then normalize_vec m6 else m6);
          currentSpeed = (if sprint (keys p) then fastSpeed p else speed p);
          moveDirection = multiplyScalar m7 (currentSpeed * dt);
          c' = c\<lparr> camera_position := add_vec (camera_position c) moveDirection \<rparr>
      in (p\<lparr> position := camera_position c' \<rparr>, c'))"

definition Player_update ::
  "real \<Rightarrow> CameraController \<Rightarrow> Player \<Rightarrow> Player \<times> CameraController" where
  "Player_update dt c p =
     (let m = currentMode c;
          (p1, c1) = (if m = FREE_CAMERA then updateFreeCamera dt c p
                      else (updatePlayerMovement dt c p, c))
      in (p1\<lparr> mesh := (mesh p1)\<lparr> pm_position := position p1, pm_scale := scale p1,
                                   pm_visible := (m \<noteq> FIRST_PERSON) \<rparr> \<rparr>,
          c1))"

subsection \<open>A run of frames in a grounded mode\<close>

text \<open>
  Between two frames the key handlers and the mouse change the held keys and the yaw. Frame
  \<open>n\<close> of a run sees the frame time, the keys and the camera controller that
  \<open>inp n\<close> gives, and runs the grounded integrator once.
\<close>

record frame =
  frame_dt :: real
  frame_keys :: keys
  frame_camera :: CameraController

fun groundedFrames :: "(nat \<Rightarrow> frame) \<Rightarrow> nat \<Rightarrow> Player \<Rightarrow> Player" where
  "groundedFrames inp 0 p = p"
| "groundedFrames inp (Suc n) p =
     updatePlayerMovement (frame_dt (inp n)) (frame_camera (inp n))
       ((groundedFrames inp n p)\<lparr> keys := frame_keys (inp n) \<rparr>)"

text \<open>The length of the horizontal (x, z) part of the step from one position to another.\<close>

definition horizontalDistance :: "vec3 \<Rightarrow> vec3 \<Rightarrow> real" where
  "horizontalDistance a b = sqrt ((vx b - vx a)\<^sup>2 + (vz b - vz a)\<^sup>2)"

subsection \<open>A run that ends below the ground\<close>

text \<open>
  Each frame of \<open>main.js\<close> calls \<open>player.update\<close> and then \<open>cameraController.update\<close>. In this
  run the viewer starts in first-person mode and its first frame, of a sixtieth of a second,
  puts the player on the ground and the camera at eye level. The camera mode is then set to
  the free camera, and a frame of one second with the \<open>down\<close> key held takes the camera,
  and the player with it, below the ground. The mode is set back to first person and the
  jump key is pressed.
\<close>

definition landed_Player :: Player where
  "landed_Player = fst (Player_update (1 / 60) new_CameraController new_Player)"

definition landed_Camera :: CameraController where
  "landed_Camera = updateFirstPerson landed_Player new_CameraController"

definition sunk_Player :: Player where
  "sunk_Player =
     (fst (Player_update 1 (setMode FREE_CAMERA landed_Camera)
             (landed_Player\<lparr> keys := no_keys\<lparr> down := True \<rparr> \<rparr>)))
       \<lparr> keys := no_keys\<lparr> jump := True \<rparr> \<rparr>"

definition sunk_Camera :: CameraController where
  "sunk_Camera =
     setMode FIRST_PERSON
       (CameraController_updateFreeCamera
          (snd (Player_update 1 (setMode FREE_CAMERA landed_Camera)
                  (landed_Player\<lparr> keys := no_keys\<lparr> down := True \<rparr> \<rparr>))))"

section \<open>Properties of the lighting engine\<close>

subsection \<open>Interpolation of presets\<close>

lemma channel_lerpColors:
  "channel_of c (lerpColors p q u) = channel_of c p + (channel_of c q - channel_of c p) * u"
  by (cases c) (simp_all add: lerpColors_def Color_lerpColors_def lerp_def algebra_simps)

lemma channels_determine:
  assumes "\<And>c. channel_of c p = channel_of c q"
  shows "p = (q::TimePreset)"
proof -
  have "sky p = sky q"
    using assms[of SkyR] assms[of SkyG] assms[of SkyB] by (simp add: color.equality)
  moreover have "sun p = sun q"
    using assms[of SunR] assms[of SunG] assms[of SunB] by (simp add: color.equality)
  moreover have "ambient p = ambient q"
    using assms[of AmbientR] assms[of AmbientG] assms[of AmbientB] by (simp add: color.equality)
  moreover have "fog p = fog q"
    using assms[of FogR] assms[of FogG] assms[of FogB] by (simp add: color.equality)
  moreover have "TimePreset.sunIntensity p = TimePreset.sunIntensity q"
    using assms[of SunIntensity] by simp
  ultimately show ?thesis by (simp add: TimePreset.equality)
qed

lemma lerpColors_0: "lerpColors p q 0 = p"
  by (rule channels_determine) (simp add: channel_lerpColors)

lemma lerpColors_1: "lerpColors p q 1 = q"
  by (rule channels_determine) (simp add: channel_lerpColors)

lemma continuous_on_glue:
  fixes f :: "real \<Rightarrow> real"
  assumes "a \<le> b" "b \<le> c" "continuous_on {a..b} f" "continuous_on {b..c} f"
  shows "continuous_on {a..c} f"
proof -
  have "{a..c} = {a..b} \<union> {b..c}" using assms(1,2) by auto
  then show ?thesis using assms(3,4) by (simp add: continuous_on_closed_Un)
qed

lemma continuous_on_linear_piece:
  fixes f :: "real \<Rightarrow> real"
  assumes "lo < hi"
    and "\<And>t. lo \<le> t \<Longrightarrow> t \<le> hi \<Longrightarrow> f t = x + (y - x) * ((t - lo) / (hi - lo))"
  shows "continuous_on {lo..hi} f"
proof -
  have "continuous_on {lo..hi} (\<lambda>t. x + (y - x) * ((t - lo) / (hi - lo)))"
    using assms(1) by (intro continuous_intros) auto
  moreover have "continuous_on {lo..hi} f \<longleftrightarrow>
      continuous_on {lo..hi} (\<lambda>t. x + (y - x) * ((t - lo) / (hi - lo)))"
    by (rule continuous_on_cong) (auto simp: assms(2))
  ultimately show ?thesis by simp
qed

lemma continuous_on_flat_piece:
  fixes f :: "real \<Rightarrow> real"
  assumes "\<And>t. lo \<le> t \<Longrightarrow> t \<le> hi \<Longrightarrow> f t = x"
  shows "continuous_on {lo..hi} f"
proof -
  have "continuous_on {lo..hi} f \<longleftrightarrow> continuous_on {lo..hi} (\<lambda>t::real. x)"
    by (rule continuous_on_cong) (auto simp: assms)
  then show ?thesis by simp
qed

lemma channel_continuous_piece0:
  "continuous_on {0..5} (\<lambda>t. channel_of c (getColorsForTime P t))"
  by (rule continuous_on_flat_piece[where x = "channel_of c (night P)"])
     (auto simp: getColorsForTime_def channel_lerpColors)

lemma channel_continuous_piece1:
  "continuous_on {5..7} (\<lambda>t. channel_of c (getColorsForTime P t))"
  by (rule continuous_on_linear_piece[where x = "channel_of c (night P)"
        and y = "channel_of c (dawn P)"])
     (auto simp: getColorsForTime_def channel_lerpColors field_simps)

lemma channel_continuous_piece2:
  "continuous_on {7..9} (\<lambda>t. channel_of c (getColorsForTime P t))"
  by (rule continuous_on_linear_piece[where x = "channel_of c (dawn P)"
        and y = "channel_of c (morning P)"])
     (auto simp: getColorsForTime_def channel_lerpColors field_simps)

lemma channel_continuous_piece3:
  "continuous_on {9..11} (\<lambda>t. channel_of c (getColorsForTime P t))"
  by (rule continuous_on_linear_piece[where x = "channel_of c (morning P)"
        and y = "channel_of c (noon P)"])
     (auto simp: getColorsForTime_def channel_lerpColors field_simps)

lemma channel_continuous_piece5:
  "continuous_on {15..17} (\<lambda>t. channel_of c (getColorsForTime P t))"
  by (rule continuous_on_linear_piece[where x = "channel_of c (noon P)"
        and y = "channel_of c (afternoon P)"])
     (auto simp: getColorsForTime_def channel_lerpColors field_simps)

lemma channel_continuous_piece6:
  "continuous_on {17..19} (\<lambda>t. channel_of c (getColorsForTime P t))"
  by (rule continuous_on_linear_piece[where x = "channel_of c (afternoon P)"
        and y = "channel_of c (dusk P)"])
     (auto simp: getColorsForTime_def channel_lerpColors field_simps)

lemma channel_continuous_piece7:
  "continuous_on {19..21} (\<lambda>t. channel_of c (getColorsForTime P t))"
  by (rule continuous_on_linear_piece[where x = "channel_of c (dusk P)"
        and y = "channel_of c (evening P)"])
     (auto simp: getColorsForTime_def channel_lerpColors field_simps)

lemma channel_continuous_piece8:
  "continuous_on {21..24} (\<lambda>t. channel_of c (getColorsForTime P t))"
  by (rule continuous_on_linear_piece[where x = "channel_of c (evening P)"
        and y = "channel_of c (night P)"])
     (auto simp: getColorsForTime_def channel_lerpColors field_simps)

lemma channel_continuous_piece4:
  "continuous_on {11..15} (\<lambda>t. channel_of c (getColorsForTime P t))"
  by (rule continuous_on_flat_piece[where x = "channel_of c (noon P)"])
     (auto simp: getColorsForTime_def channel_lerpColors)

lemma channel_continuous_on_day:
  "continuous_on {0..24} (\<lambda>t. channel_of c (getColorsForTime P t))"
  by (intro continuous_on_glue[of 0 21 24] continuous_on_glue[of 0 19 21]
        continuous_on_glue[of 0 17 19] continuous_on_glue[of 0 15 17]
        continuous_on_glue[of 0 11 15] continuous_on_glue[of 0 9 11]
        continuous_on_glue[of 0 7 9] continuous_on_glue[of 0 5 7]
        channel_continuous_piece0 channel_continuous_piece1 channel_continuous_piece2
        channel_continuous_piece3 channel_continuous_piece4 channel_continuous_piece5
        channel_continuous_piece6 channel_continuous_piece7 channel_continuous_piece8)
     simp_all

lemma left_limit_of_continuous_on:
  fixes f :: "real \<Rightarrow> real"
  assumes "continuous_on {0..24} f" "0 < b" "b \<le> 24"
  shows "(f \<longlongrightarrow> f b) (at_left b)"
proof -
  have "continuous_on {0..b} f"
    using assms by (auto intro: continuous_on_subset)
  then have "(f \<longlongrightarrow> f b) (at b within {0..b})"
    using assms(2) by (simp add: continuous_on_def)
  then show ?thesis
    using assms(2) by (simp add: at_within_Icc_at_left)
qed


text \<open>
  Claim C1. The colour and intensity curve is continuous over the day. For every presets
  \<open>P\<close> and every channel \<open>c\<close> of a preset, \<open>t \<mapsto> getColorsForTime(t)\<close> is continuous on
  the whole day \<open>[0, 24]\<close>; at every interval boundary \<open>b\<close> of 5, 7, 9, 11, 15, 17, 19, 21
  the limit from below is the value at \<open>b\<close>; and approaching 24 from below the curve tends
  to its value at 0. The value at each boundary is the formula of the preceding interval
  taken at the boundary (the fraction has reached 1 there, and gives the preset the next
  interval starts from), and the formula of the last interval, taken at 24, is the night
  preset that holds from 0.
\<close>

theorem getColorsForTime_continuous:
  "continuous_on {0..24} (\<lambda>t. channel_of c (getColorsForTime P t))
   \<and> list_all (\<lambda>b. ((\<lambda>t. channel_of c (getColorsForTime P t))
                       \<longlongrightarrow> channel_of c (getColorsForTime P b)) (at_left b))
        [5, 7, 9, 11, 15, 17, 19, 21]
   \<and> ((\<lambda>t. channel_of c (getColorsForTime P t))
         \<longlongrightarrow> channel_of c (getColorsForTime P 0)) (at_left 24)
   \<and> getColorsForTime P 5 = night P
   \<and> getColorsForTime P 7 = lerpColors (night P) (dawn P) ((7 - 5) / 2)
   \<and> getColorsForTime P 9 = lerpColors (dawn P) (morning P) ((9 - 7) / 2)
   \<and> getColorsForTime P 11 = lerpColors (morning P) (noon P) ((11 - 9) / 2)
   \<and> getColorsForTime P 15 = noon P
   \<and> getColorsForTime P 17 = lerpColors (noon P) (afternoon P) ((17 - 15) / 2)
   \<and> getColorsForTime P 19 = lerpColors (afternoon P) (dusk P) ((19 - 17) / 2)
   \<and> getColorsForTime P 21 = lerpColors (dusk P) (evening P) ((21 - 19) / 2)
   \<and> getColorsForTime P 0 = lerpColors (evening P) (night P) ((24 - 21) / 3)
   \<and> getColorsForTime P 7 = dawn P \<and> getColorsForTime P 9 = morning P
   \<and> getColorsForTime P 11 = noon P \<and> getColorsForTime P 17 = afternoon P
   \<and> getColorsForTime P 19 = dusk P \<and> getColorsForTime P 21 = evening P
   \<and> getColorsForTime P 0 = night P"
proof -
  let ?f = "\<lambda>t. channel_of c (getColorsForTime P t)"
  have cont: "continuous_on {0..24} ?f" by (rule channel_continuous_on_day)
  have lims: "(?f \<longlongrightarrow> ?f b) (at_left b)" if "0 < b" "b \<le> 24" for b
    using left_limit_of_continuous_on[OF cont that] .
  have wrap: "getColorsForTime P 24 = getColorsForTime P 0"
    by (simp add: getColorsForTime_def lerpColors_1)
  have "(?f \<longlongrightarrow> ?f 24) (at_left 24)" by (rule lims) simp_all
  then have l24: "(?f \<longlongrightarrow> ?f 0) (at_left 24)" by (simp add: wrap)
  have vals: "getColorsForTime P 5 = night P"
    "getColorsForTime P 7 = lerpColors (night P) (dawn P) ((7 - 5) / 2)"
    "getColorsForTime P 9 = lerpColors (dawn P) (morning P) ((9 - 7) / 2)"
    "getColorsForTime P 11 = lerpColors (morning P) (noon P) ((11 - 9) / 2)"
    "getColorsForTime P 15 = noon P"
    "getColorsForTime P 17 = lerpColors (noon P) (afternoon P) ((17 - 15) / 2)"
    "getColorsForTime P 19 = lerpColors (afternoon P) (dusk P) ((19 - 17) / 2)"
    "getColorsForTime P 21 = lerpColors (dusk P) (evening P) ((21 - 19) / 2)"
    "getColorsForTime P 0 = lerpColors (evening P) (night P) ((24 - 21) / 3)"
    "getColorsForTime P 7 = dawn P" "getColorsForTime P 9 = morning P"
    "getColorsForTime P 11 = noon P" "getColorsForTime P 17 = afternoon P"
    "getColorsForTime P 19 = dusk P" "getColorsForTime P 21 = evening P"
    "getColorsForTime P 0 = night P"
    by (simp_all add: getColorsForTime_def lerpColors_0 lerpColors_1)
  show ?thesis
    using cont l24 vals lims[of 5] lims[of 7] lims[of 9] lims[of 11] lims[of 15]
      lims[of 17] lims[of 19] lims[of 21]
    by simp
qed

subsection \<open>What \<open>updateLighting\<close> writes\<close>

lemma sunPosition_timeOfDay [simp]:
  "sunPosition (s\<lparr> timeOfDay := t \<rparr>) u = sunPosition s u"
  by (simp add: sunPosition_def)

lemma updateSunPosition_clock [simp]:
  "timeOfDay (updateSunPosition t s) = timeOfDay s"
  "timeSpeed (updateSunPosition t s) = timeSpeed s"
  "enabled (updateSunPosition t s) = enabled s"
  "TimeOfDaySystem.sunIntensity (updateSunPosition t s) = TimeOfDaySystem.sunIntensity s"
  "sunDistance (updateSunPosition t s) = sunDistance s"
  "orbitRotation (updateSunPosition t s) = orbitRotation s"
  "timeColorPresets (updateSunPosition t s) = timeColorPresets s"
  "scene (updateSunPosition t s) = scene s"
  "hemisphereLight (updateSunPosition t s) = hemisphereLight s"
  by (simp_all add: updateSunPosition_def Let_def split: option.splits)

lemma updateLighting_clock [simp]:
  "timeOfDay (updateLighting s) = timeOfDay s"
  "timeSpeed (updateLighting s) = timeSpeed s"
  "enabled (updateLighting s) = enabled s"
  "TimeOfDaySystem.sunIntensity (updateLighting s) = TimeOfDaySystem.sunIntensity s"
  "sunDistance (updateLighting s) = sunDistance s"
  "orbitRotation (updateLighting s) = orbitRotation s"
  "timeColorPresets (updateLighting s) = timeColorPresets s"
  by (simp_all add: updateLighting_def Let_def)

lemma updateLighting_light:
  "intensity (directionalLight (updateLighting s)) =
     TimePreset.sunIntensity (getColorsForTime (timeColorPresets s) (timeOfDay s))
       * TimeOfDaySystem.sunIntensity s"
  "light_color (directionalLight (updateLighting s)) =
     sun (getColorsForTime (timeColorPresets s) (timeOfDay s))"
  "light_position (directionalLight (updateLighting s)) = sunPosition s (timeOfDay s)"
  by (simp_all add: updateLighting_def updateSunPosition_def Let_def sunPosition_def
        split: option.splits)

lemma updateLighting_scene:
  "background (scene (updateLighting s)) =
     sky (getColorsForTime (timeColorPresets s) (timeOfDay s))"
  "fog_color (scene (updateLighting s)) =
     map_option (\<lambda>_. fog (getColorsForTime (timeColorPresets s) (timeOfDay s)))
       (fog_color (scene s))"
  "hemi_color (hemisphereLight (updateLighting s)) =
     sky (getColorsForTime (timeColorPresets s) (timeOfDay s))"
  "groundColor (hemisphereLight (updateLighting s)) =
     ambient (getColorsForTime (timeColorPresets s) (timeOfDay s))"
  by (simp_all add: updateLighting_def Let_def split: option.splits)

lemma updateLighting_sunMesh:
  "sunMesh (updateLighting s) =
     map_option (\<lambda>m. m\<lparr> mesh_position := sunPosition s (timeOfDay s),
                         material_color := sun (getColorsForTime (timeColorPresets s) (timeOfDay s)),
                         visible := (vy (sunPosition s (timeOfDay s)) > 0) \<rparr>) (sunMesh s)"
  by (simp add: updateLighting_def updateSunPosition_def Let_def sunPosition_def
        split: option.splits)

subsection \<open>The clock\<close>

lemma update_timeOfDay:
  "timeOfDay (update dt s) =
     (if enabled s then
        (if timeOfDay s + dt * timeSpeed s / 3600 \<ge> 24
         then timeOfDay s + dt * timeSpeed s / 3600 - 24
         else timeOfDay s + dt * timeSpeed s / 3600)
      else timeOfDay s)"
  by (simp add: update_def Let_def)

lemma update_keeps [simp]:
  "timeSpeed (update dt s) = timeSpeed s"
  "enabled (update dt s) = enabled s"
  by (simp_all add: update_def Let_def)

lemma update_is_updateLighting:
  "update dt s = updateLighting (s\<lparr> timeOfDay := timeOfDay (update dt s) \<rparr>)"
  by (simp add: update_def Let_def)

lemma fold_update_frozen:
  "timeSpeed s = 0 \<Longrightarrow> timeOfDay s < 24 \<or> \<not> enabled s
   \<Longrightarrow> timeOfDay (fold update dts s) = timeOfDay s"
proof (induction dts arbitrary: s)
  case Nil
  then show ?case by simp
next
  case (Cons dt dts)
  have "timeOfDay (update dt s) = timeOfDay s"
    using Cons.prems by (auto simp: update_timeOfDay)
  moreover have "timeSpeed (update dt s) = 0" using Cons.prems by simp
  ultimately show ?case using Cons.IH[of "update dt s"] Cons.prems by simp
qed

text \<open>
  Claim C2, as amended. With the cycle enabled, \<open>update(dt)\<close> stores
  \<open>timeOfDay + dt * timeSpeed / 3600\<close>, less 24 when that sum has reached 24. With the cycle
  disabled it leaves \<open>timeOfDay\<close> as it is. In both cases it then writes every lighting
  output anew from the stored time: the background and (if there is a fog) the fog colour
  of the scene, the colour, intensity and position of the directional light, the two
  colours of the hemisphere light and (if there is a sun mesh) the position, colour and
  visibility of the sun mesh. After \<open>setTimeSpeed(0)\<close>, any number of \<open>update\<close> calls, with
  any frame times, leave \<open>timeOfDay\<close> unchanged, when \<open>timeOfDay\<close> is below 24 or the cycle
  is disabled.
\<close>

theorem update_advances_clock:
  "(enabled s \<longrightarrow>
      timeOfDay (update dt s) =
        (if timeOfDay s + dt * timeSpeed s / 3600 \<ge> 24
         then timeOfDay s + dt * timeSpeed s / 3600 - 24
         else timeOfDay s + dt * timeSpeed s / 3600))
   \<and> (\<not> enabled s \<longrightarrow> timeOfDay (update dt s) = timeOfDay s \<and> update dt s = updateLighting s)
   \<and> update dt s = updateLighting (s\<lparr> timeOfDay := timeOfDay (update dt s) \<rparr>)
   \<and> (let t' = timeOfDay (update dt s);
           colors = getColorsForTime (timeColorPresets s) t';
           position = sunPosition s t'
       in background (scene (update dt s)) = sky colors
          \<and> fog_color (scene (update dt s)) = map_option (\<lambda>_. fog colors) (fog_color (scene s))
          \<and> light_color (directionalLight (update dt s)) = sun colors
          \<and> intensity (directionalLight (update dt s))
              = TimePreset.sunIntensity colors * TimeOfDaySystem.sunIntensity s
          \<and> light_position (directionalLight (update dt s)) = position
          \<and> hemi_color (hemisphereLight (update dt s)) = sky colors
          \<and> groundColor (hemisphereLight (update dt s)) = ambient colors
          \<and> sunMesh (update dt s)
              = map_option (\<lambda>m. m\<lparr> mesh_position := position, material_color := sun colors,
                                    visible := (vy position > 0) \<rparr>) (sunMesh s))
   \<and> (timeOfDay s < 24 \<or> \<not> enabled s \<longrightarrow>
        timeOfDay (fold update dts (setTimeSpeed 0 s)) = timeOfDay s)"
proof -
  have "timeOfDay s < 24 \<or> \<not> enabled s
      \<Longrightarrow> timeOfDay (fold update dts (setTimeSpeed 0 s)) = timeOfDay s"
    using fold_update_frozen[of "setTimeSpeed 0 s" dts] by (simp add: setTimeSpeed_def)
  moreover have "\<not> enabled s \<Longrightarrow> update dt s = updateLighting s"
    by (simp add: update_def)
  moreover have "background (scene (update dt s))
        = sky (getColorsForTime (timeColorPresets s) (timeOfDay (update dt s)))"
    "fog_color (scene (update dt s))
        = map_option (\<lambda>_. fog (getColorsForTime (timeColorPresets s) (timeOfDay (update dt s))))
            (fog_color (scene s))"
    "light_color (directionalLight (update dt s))
        = sun (getColorsForTime (timeColorPresets s) (timeOfDay (update dt s)))"
    "intensity (directionalLight (update dt s))
        = TimePreset.sunIntensity (getColorsForTime (timeColorPresets s) (timeOfDay (update dt s)))
            * TimeOfDaySystem.sunIntensity s"
    "light_position (directionalLight (update dt s)) = sunPosition s (timeOfDay (update dt s))"
    "hemi_color (hemisphereLight (update dt s))
        = sky (getColorsForTime (timeColorPresets s) (timeOfDay (update dt s)))"
    "groundColor (hemisphereLight (update dt s))
        = ambient (getColorsForTime (timeColorPresets s) (timeOfDay (update dt s)))"
    "sunMesh (update dt s)
        = map_option (\<lambda>m. m\<lparr> mesh_position := sunPosition s (timeOfDay (update dt s)),
               material_color := sun (getColorsForTime (timeColorPresets s) (timeOfDay (update dt s))),
               visible := (vy (sunPosition s (timeOfDay (update dt s))) > 0) \<rparr>) (sunMesh s)"
    by (subst update_is_updateLighting,
        simp add: updateLighting_light updateLighting_scene updateLighting_sunMesh)+
  ultimately show ?thesis
    using update_is_updateLighting[of dt s] by (simp add: update_timeOfDay Let_def)
qed

theorem update_advances_clock_witness:
  "enabled (setEnabled True main_timeOfDay)
   \<and> timeOfDay (update 1 (setEnabled True main_timeOfDay)) = 12 + 1 / 360
   \<and> intensity (directionalLight (setEnabled True main_timeOfDay)) = 7 / 2
   \<and> intensity (directionalLight (update 1 (setEnabled True main_timeOfDay))) = 8 / 5
   \<and> \<not> enabled main_timeOfDay
   \<and> timeOfDay (update 1 main_timeOfDay) = 12
   \<and> intensity (directionalLight (update 1 main_timeOfDay)) = 8 / 5
   \<and> timeOfDay (setEnabled True main_timeOfDay) < 24
   \<and> timeOfDay (fold update [1, 2] (setTimeSpeed 0 (setEnabled True main_timeOfDay))) = 12"
proof -
  let ?s = "setEnabled True main_timeOfDay"
  have e: "enabled ?s" "\<not> enabled main_timeOfDay" "timeOfDay ?s < 24"
    "intensity (directionalLight ?s) = 7 / 2"
    by (simp_all add: main_timeOfDay_def constructor_def setEnabled_def
          main_directionalLight_def)
  have v: "timeOfDay ?s + 1 * timeSpeed ?s / 3600 = 12 + 1 / 360" "timeOfDay main_timeOfDay = 12"
    "timeColorPresets ?s = defaultPresets" "timeColorPresets main_timeOfDay = defaultPresets"
    "TimeOfDaySystem.sunIntensity ?s = 4 / 5"
    "TimeOfDaySystem.sunIntensity main_timeOfDay = 4 / 5"
    by (simp_all add: main_timeOfDay_def constructor_def setEnabled_def)
  have c: "TimePreset.sunIntensity (getColorsForTime defaultPresets (12 + 1 / 360)) = 2"
    "TimePreset.sunIntensity (getColorsForTime defaultPresets 12) = 2"
    by (simp_all add: getColorsForTime_def defaultPresets_def)
  note a = update_advances_clock[of ?s 1 "[1, 2]"]
  note b = update_advances_clock[of main_timeOfDay 1 "[]"]
  have t1: "timeOfDay (update 1 ?s) = 12 + 1 / 360"
    using a e(1) v(1) by simp
  have t2: "timeOfDay (update 1 main_timeOfDay) = 12"
    using b e(2) v(2) by simp
  have "intensity (directionalLight (update 1 ?s))
      = TimePreset.sunIntensity (getColorsForTime (timeColorPresets ?s) (timeOfDay (update 1 ?s)))
          * TimeOfDaySystem.sunIntensity ?s"
    using a unfolding Let_def by blast
  then have i1: "intensity (directionalLight (update 1 ?s)) = 8 / 5"
    by (simp only: t1 v c)
  have "intensity (directionalLight (update 1 main_timeOfDay))
      = TimePreset.sunIntensity
          (getColorsForTime (timeColorPresets main_timeOfDay) (timeOfDay (update 1 main_timeOfDay)))
          * TimeOfDaySystem.sunIntensity main_timeOfDay"
    using b unfolding Let_def by blast
  then have i2: "intensity (directionalLight (update 1 main_timeOfDay)) = 8 / 5"
    by (simp only: t2 v c)
  have f: "timeOfDay (fold update [1, 2] (setTimeSpeed 0 ?s)) = 12"
    using a e(3) by (simp add: main_timeOfDay_def constructor_def setEnabled_def)
  show ?thesis using e t1 t2 i1 i2 f by simp
qed

text \<open>
  The last part of the claim as first stated, for every state, fails: with the cycle
  enabled and \<open>timeOfDay\<close> set to 24 (the top of the time slider), \<open>setTimeSpeed(0)\<close> and
  one \<open>update\<close> store 0, the wrap step still being applied.
\<close>

theorem update_frozen_counterexample:
  "enabled (setTimeSpeed 0 (setEnabled True (setTime 24 main_timeOfDay)))
   \<and> timeSpeed (setTimeSpeed 0 (setEnabled True (setTime 24 main_timeOfDay))) = 0
   \<and> timeOfDay (setTimeSpeed 0 (setEnabled True (setTime 24 main_timeOfDay))) = 24
   \<and> timeOfDay (update 1 (setTimeSpeed 0 (setEnabled True (setTime 24 main_timeOfDay)))) = 0
   \<and> timeOfDay (update 1 (setTimeSpeed 0 (setEnabled True (setTime 24 main_timeOfDay))))
       \<noteq> timeOfDay (setTimeSpeed 0 (setEnabled True (setTime 24 main_timeOfDay)))"
  by (simp add: update_timeOfDay setTimeSpeed_def setEnabled_def setTime_def)

text \<open>
  Claim C3, as amended. Going forward, \<open>timeOfDay\<close> wraps at 24: starting from a
  \<open>timeOfDay\<close> in \<open>[0, 24)\<close>, for every frame time \<open>dt \<ge> 0\<close> and every time speed \<open>\<ge> 0\<close>
  whose advance \<open>dt * timeSpeed / 3600\<close> is less than 24 hours, the stored value after
  \<open>update(dt)\<close> is again in \<open>[0, 24)\<close>. A negative time speed runs the clock backwards and
  nothing wraps it below 0: the stored value is then \<open>timeOfDay + dt * timeSpeed / 3600\<close>,
  which is in \<open>[0, 24)\<close> only while it is not negative. With the cycle enabled,
  \<open>setTime(23.9); setTimeSpeed(3600); update(1)\<close> gives a value within \<open>1 / 10^9\<close> of 0.9,
  not 24.9.
\<close>

theorem update_wraps:
  assumes "0 \<le> timeOfDay s" and "timeOfDay s < 24" and "0 \<le> dt"
  shows "(0 \<le> timeSpeed s \<and> dt * timeSpeed s / 3600 < 24
            \<longrightarrow> 0 \<le> timeOfDay (update dt s) \<and> timeOfDay (update dt s) < 24)
         \<and> (enabled s \<and> timeSpeed s < 0
            \<longrightarrow> timeOfDay (update dt s) = timeOfDay s + dt * timeSpeed s / 3600
                \<and> timeOfDay (update dt s) < 24
                \<and> (0 \<le> timeOfDay (update dt s)
                     \<longleftrightarrow> 0 \<le> timeOfDay s + dt * timeSpeed s / 3600))
         \<and> (enabled s
            \<longrightarrow> \<bar>timeOfDay (update 1 (setTimeSpeed 3600 (setTime (239 / 10) s))) - 9 / 10\<bar>
                  < 1 / 10 ^ 9
                \<and> timeOfDay (update 1 (setTimeSpeed 3600 (setTime (239 / 10) s))) \<noteq> 249 / 10)"
proof -
  let ?d = "dt * timeSpeed s / 3600"
  have fwd: "0 \<le> timeOfDay (update dt s) \<and> timeOfDay (update dt s) < 24"
    if "0 \<le> timeSpeed s" "?d < 24"
  proof -
    have "0 \<le> dt * timeSpeed s" using assms(3) that(1) by simp
    then have "0 \<le> ?d" by simp
    then show ?thesis using assms(1,2) that(2) by (auto simp: update_timeOfDay)
  qed
  have bwd: "timeOfDay (update dt s) = timeOfDay s + ?d \<and> timeOfDay (update dt s) < 24"
    if "enabled s" "timeSpeed s < 0"
  proof -
    have "dt * timeSpeed s \<le> 0" using assms(3) that(2) by (simp add: mult_nonneg_nonpos)
    then have "?d \<le> 0" by simp
    then show ?thesis using assms(2) that(1) by (auto simp: update_timeOfDay)
  qed
  have ex: "timeOfDay (update 1 (setTimeSpeed 3600 (setTime (239 / 10) s))) = 9 / 10"
    if "enabled s"
    using that by (simp add: update_timeOfDay setTimeSpeed_def setTime_def)
  show ?thesis using fwd bwd ex by auto
qed

theorem update_wraps_witness:
  "0 \<le> timeOfDay (setEnabled True main_timeOfDay)
   \<and> timeOfDay (setEnabled True main_timeOfDay) < 24
   \<and> (0::real) \<le> 7200
   \<and> 0 \<le> timeSpeed (setEnabled True main_timeOfDay)
   \<and> 7200 * timeSpeed (setEnabled True main_timeOfDay) / 3600 < 24
   \<and> 0 \<le> timeOfDay (update 7200 (setEnabled True main_timeOfDay))
   \<and> timeOfDay (update 7200 (setEnabled True main_timeOfDay)) < 24
   \<and> enabled (setTimeSpeed (- 3600) (setEnabled True main_timeOfDay))
   \<and> timeSpeed (setTimeSpeed (- 3600) (setEnabled True main_timeOfDay)) < 0
   \<and> (0::real) \<le> 2
   \<and> timeOfDay (update 2 (setTimeSpeed (- 3600) (setEnabled True main_timeOfDay))) = 10
   \<and> \<bar>timeOfDay (update 1 (setTimeSpeed 3600 (setTime (239 / 10)
          (setEnabled True main_timeOfDay)))) - 9 / 10\<bar> < 1 / 10 ^ 9"
proof -
  let ?s = "setEnabled True main_timeOfDay"
  let ?b = "setTimeSpeed (- 3600) (setEnabled True main_timeOfDay)"
  have h: "0 \<le> timeOfDay ?s" "timeOfDay ?s < 24" "(0::real) \<le> 7200"
    by (simp_all add: main_timeOfDay_def constructor_def setEnabled_def)
  have hb: "0 \<le> timeOfDay ?b" "timeOfDay ?b < 24" "(0::real) \<le> 2"
    by (simp_all add: main_timeOfDay_def constructor_def setEnabled_def setTimeSpeed_def)
  have e: "enabled ?s" "0 \<le> timeSpeed ?s" "7200 * timeSpeed ?s / 3600 < 24"
    "enabled ?b" "timeSpeed ?b < 0" "timeOfDay ?b + 2 * timeSpeed ?b / 3600 = 10"
    by (simp_all add: main_timeOfDay_def constructor_def setEnabled_def setTimeSpeed_def)
  note a = update_wraps[OF h]
  note b = update_wraps[OF hb]
  have "0 \<le> timeOfDay (update 7200 ?s) \<and> timeOfDay (update 7200 ?s) < 24"
    using a e(1,2,3) by blast
  moreover have "timeOfDay (update 2 ?b) = 10"
    using b e(4,5,6) by simp
  moreover have "\<bar>timeOfDay (update 1 (setTimeSpeed 3600 (setTime (239 / 10) ?s))) - 9 / 10\<bar>
      < 1 / 10 ^ 9"
    using a e(1) by blast
  ultimately show ?thesis using h e by simp
qed

text \<open>
  The claim as first stated fails. For a negative \<open>timeSpeed\<close>: an advance of 13 hours
  backwards from noon stores \<open>-1\<close>. For an advance of 24 hours or more: 50 hours from noon
  store 38. And on the engine as constructed the cycle is disabled, so that
  \<open>setTime(23.9); setTimeSpeed(3600); update(1)\<close> leaves 23.9.
\<close>

theorem update_wrap_counterexample:
  "0 \<le> timeOfDay (setTimeSpeed (- 3600) (setEnabled True main_timeOfDay))
   \<and> timeOfDay (setTimeSpeed (- 3600) (setEnabled True main_timeOfDay)) < 24
   \<and> (0::real) \<le> 13
   \<and> timeOfDay (update 13 (setTimeSpeed (- 3600) (setEnabled True main_timeOfDay))) = - 1
   \<and> \<not> 0 \<le> timeOfDay (update 13 (setTimeSpeed (- 3600) (setEnabled True main_timeOfDay)))
   \<and> 0 \<le> timeOfDay (setTimeSpeed 180000 (setEnabled True main_timeOfDay))
   \<and> timeOfDay (setTimeSpeed 180000 (setEnabled True main_timeOfDay)) < 24
   \<and> timeOfDay (update 1 (setTimeSpeed 180000 (setEnabled True main_timeOfDay))) = 38
   \<and> \<not> timeOfDay (update 1 (setTimeSpeed 180000 (setEnabled True main_timeOfDay))) < 24
   \<and> timeOfDay (update 1 (setTimeSpeed 3600 (setTime (239 / 10) main_timeOfDay))) = 239 / 10"
  by (simp add: update_timeOfDay main_timeOfDay_def constructor_def setEnabled_def
        setTimeSpeed_def setTime_def)

lemma getColorsForTime_out_of_range:
  "t < 0 \<or> 21 \<le> t \<Longrightarrow>
     getColorsForTime P t = lerpColors (evening P) (night P) ((t - 21) / 3)"
  by (auto simp: getColorsForTime_def)

text \<open>
  Claim C10, as amended. \<open>setTime(t)\<close> stores \<open>t\<close> as it is, with no clamping and no
  wrapping, so the stored \<open>timeOfDay\<close> lies in \<open>[0, 24)\<close> exactly when \<open>t\<close> does; the
  lighting is recomputed at once from the stored \<open>t\<close>, and for \<open>t < 0\<close> or \<open>t \<ge> 24\<close> it is
  the last, evening-to-night branch with the fraction \<open>(t - 21) / 3\<close>, which is then
  below 0 or at least 1.
\<close>

theorem setTime_stores_unchanged:
  "timeOfDay (setTime t s) = t
   \<and> ((0 \<le> timeOfDay (setTime t s) \<and> timeOfDay (setTime t s) < 24) \<longleftrightarrow> (0 \<le> t \<and> t < 24))
   \<and> setTime t s = updateLighting (s\<lparr> timeOfDay := t \<rparr>)
   \<and> (t < 0 \<or> 24 \<le> t \<longrightarrow>
        light_color (directionalLight (setTime t s))
          = sun (lerpColors (evening (timeColorPresets s)) (night (timeColorPresets s)) ((t - 21) / 3))
        \<and> intensity (directionalLight (setTime t s))
          = TimePreset.sunIntensity
              (lerpColors (evening (timeColorPresets s)) (night (timeColorPresets s)) ((t - 21) / 3))
            * TimeOfDaySystem.sunIntensity s
        \<and> background (scene (setTime t s))
          = sky (lerpColors (evening (timeColorPresets s)) (night (timeColorPresets s)) ((t - 21) / 3))
        \<and> groundColor (hemisphereLight (setTime t s))
          = ambient (lerpColors (evening (timeColorPresets s)) (night (timeColorPresets s)) ((t - 21) / 3))
        \<and> ((t - 21) / 3 < 0 \<or> 1 \<le> (t - 21) / 3))"
proof -
  have "t < 0 \<or> 24 \<le> t \<Longrightarrow>
     getColorsForTime (timeColorPresets s) t
       = lerpColors (evening (timeColorPresets s)) (night (timeColorPresets s)) ((t - 21) / 3)"
    by (rule getColorsForTime_out_of_range) auto
  then show ?thesis
    by (auto simp: setTime_def updateLighting_light updateLighting_scene)
qed

theorem setTime_stores_unchanged_witness:
  "(24::real) \<le> 30
   \<and> timeOfDay (setTime 30 main_timeOfDay) = 30
   \<and> intensity (directionalLight (setTime 30 main_timeOfDay)) = - (8 / 100)"
proof -
  have h: "(30::real) < 0 \<or> 24 \<le> (30::real)" by simp
  have "timeOfDay (setTime 30 main_timeOfDay) = 30"
    and "intensity (directionalLight (setTime 30 main_timeOfDay))
          = TimePreset.sunIntensity
              (lerpColors (evening (timeColorPresets main_timeOfDay))
                 (night (timeColorPresets main_timeOfDay)) ((30 - 21) / 3))
            * TimeOfDaySystem.sunIntensity main_timeOfDay"
    using setTime_stores_unchanged[of 30 main_timeOfDay] h by blast+
  then show ?thesis
    by (simp add: lerpColors_def lerp_def main_timeOfDay_def constructor_def defaultPresets_def)
qed

text \<open>
  The claim as first stated fails: \<open>setTime(30)\<close> stores 30 and the directional light gets
  the extrapolated intensity \<open>-0.08\<close>, not the 0.28 of 6 o'clock; \<open>setTime(-3)\<close> stores
  \<open>-3\<close>.
\<close>

theorem setTime_clamps_counterexample:
  "timeOfDay (setTime 30 main_timeOfDay) = 30
   \<and> \<not> timeOfDay (setTime 30 main_timeOfDay) < 24
   \<and> intensity (directionalLight (setTime 30 main_timeOfDay)) = - (8 / 100)
   \<and> intensity (directionalLight (setTime 6 main_timeOfDay)) = 28 / 100
   \<and> timeOfDay (setTime (- 3) main_timeOfDay) = - 3
   \<and> \<not> 0 \<le> timeOfDay (setTime (- 3) main_timeOfDay)"
  by (simp add: setTime_def updateLighting_light getColorsForTime_def lerpColors_def lerp_def
        main_timeOfDay_def constructor_def defaultPresets_def)

subsection \<open>\<open>Math.PI\<close> and \<open>pi\<close>\<close>

text \<open>
  \<open>Math.PI\<close> lies below \<^const>\<open>pi\<close>, by less than \<open>1 / 2^51\<close>. Both bounds come from the sign
  of the sine, which is positive at \<open>Math.PI\<close> and negative at \<open>Math.PI + 1 / 2^51\<close>; the
  sine is enclosed by its Taylor polynomial, whose terms are bounded one after the other.
\<close>

lemma sin_term_step:
  fixes l t u rl r ru c l' u' :: real
  assumes "0 \<le> l \<and> l \<le> t \<and> t \<le> u" and "0 \<le> rl" "rl \<le> r" "r \<le> ru" and "0 < c"
    and "l' * c \<le> l * rl" and "u * ru \<le> u' * c" and "0 \<le> l'"
  shows "0 \<le> l' \<and> l' \<le> t * r / c \<and> t * r / c \<le> u'"
proof -
  have "l * rl \<le> t * r" using assms(1,2,3) by (intro mult_mono) auto
  then have "l' * c \<le> t * r" using assms(6) by linarith
  then have lo: "l' \<le> t * r / c" using assms(5) by (simp add: pos_le_divide_eq)
  have "t * r \<le> u * ru" using assms(1,2,3,4) by (intro mult_mono) auto
  then have "t * r \<le> u' * c" using assms(7) by linarith
  then have "t * r / c \<le> u'" using assms(5) by (simp add: pos_divide_le_eq)
  then show ?thesis using lo assms(8) by simp
qed

lemma sin_terms_Math_PI_pos:
  fixes T :: "nat \<Rightarrow> real" and x :: real
  assumes x: "x = 884279719003555 / 281474976710656" and T0: "T 0 = x"
    and step: "\<And>k. T (Suc k) = T k * (x * x) / (real (2 * k + 2) * real (2 * k + 3))"
  shows "0 < T 0 - T 1 + T 2 - T 3 + T 4 - T 5 + T 6 - T 7 + T 8 - T 9 + T 10 - T 11 + T 12 - T 13 + T 14 - T 15"
proof -
  have r: "(0::real) \<le> 4934802200544678924683 / 500000000000000000000" "4934802200544678924683 / 500000000000000000000 \<le> x * x" "x * x \<le> 9869604401089357849367 / 1000000000000000000000"
    by (simp_all add: x)
  have b0: "(0::real) \<le> 3141592653589793115997 / 1000000000000000000000 \<and> 3141592653589793115997 / 1000000000000000000000 \<le> T 0 \<and> T 0 \<le> 1570796326794896557999 / 500000000000000000000"
    by (simp add: T0 x)
  have s0: "T 1 = T 0 * (x * x) / 6"
    using step[of 0] by simp
  have b1: "(0::real) \<le> 1033542556009993884981 / 200000000000000000000 \<and> 1033542556009993884981 / 200000000000000000000 \<le> T 1 \<and> T 1 \<le> 1291928195012492356227 / 250000000000000000000"
    unfolding s0 by (rule sin_term_step[OF b0 r]) simp_all
  have s1: "T 2 = T 1 * (x * x) / 20"
    using step[of 1] by (simp add: numeral_2_eq_2[symmetric])
  have b2: "(0::real) \<le> 1275082019938672473403 / 500000000000000000000 \<and> 1275082019938672473403 / 500000000000000000000 \<le> T 2 \<and> T 2 \<le> 318770504984668118351 / 125000000000000000000"
    unfolding s1 by (rule sin_term_step[OF b1 r]) simp_all
  have s2: "T 3 = T 2 * (x * x) / 42"
    using step[of 2] by simp
  have b3: "(0::real) \<le> 149816132330197978341 / 250000000000000000000 \<and> 149816132330197978341 / 250000000000000000000 \<le> T 3 \<and> T 3 \<le> 299632264660395956683 / 500000000000000000000"
    unfolding s2 by (rule sin_term_step[OF b2 r]) simp_all
  have s3: "T 4 = T 3 * (x * x) / 72"
    using step[of 3] by simp
  have b4: "(0::real) \<le> 41072943305564099989 / 500000000000000000000 \<and> 41072943305564099989 / 500000000000000000000 \<le> T 4 \<and> T 4 \<le> 4107294330556409999 / 50000000000000000000"
    unfolding s3 by (rule sin_term_step[OF b3 r]) simp_all
  have s4: "T 5 = T 4 * (x * x) / 110"
    using step[of 4] by simp
  have b5: "(0::real) \<le> 230325967053573363 / 31250000000000000000 \<and> 230325967053573363 / 31250000000000000000 \<le> T 5 \<and> T 5 \<le> 7370430945714347617 / 1000000000000000000000"
    unfolding s4 by (rule sin_term_step[OF b4 r]) simp_all
  have s5: "T 6 = T 5 * (x * x) / 156"
    using step[of 5] by simp
  have b6: "(0::real) \<le> 58287850720951541 / 125000000000000000000 \<and> 58287850720951541 / 125000000000000000000 \<le> T 6 \<and> T 6 \<le> 466302805767612329 / 1000000000000000000000"
    unfolding s5 by (rule sin_term_step[OF b5 r]) simp_all
  have s6: "T 7 = T 6 * (x * x) / 210"
    using step[of 6] by simp
  have b7: "(0::real) \<le> 21915353447830203 / 1000000000000000000000 \<and> 21915353447830203 / 1000000000000000000000 \<le> T 7 \<and> T 7 \<le> 5478838361957551 / 250000000000000000000"
    unfolding s6 by (rule sin_term_step[OF b6 r]) simp_all
  have s7: "T 8 = T 7 * (x * x) / 272"
    using step[of 7] by simp
  have b8: "(0::real) \<le> 15904108002951 / 20000000000000000000 \<and> 15904108002951 / 20000000000000000000 \<le> T 8 \<and> T 8 \<le> 795205400147551 / 1000000000000000000000"
    unfolding s7 by (rule sin_term_step[OF b7 r]) simp_all
  have s8: "T 9 = T 8 * (x * x) / 342"
    using step[of 8] by simp
  have b9: "(0::real) \<le> 22948428997269 / 1000000000000000000000 \<and> 22948428997269 / 1000000000000000000000 \<le> T 9 \<and> T 9 \<le> 2294842899727 / 100000000000000000000"
    unfolding s8 by (rule sin_term_step[OF b8 r]) simp_all
  have s9: "T 10 = T 9 * (x * x) / 420"
    using step[of 9] by simp
  have b10: "(0::real) \<le> 26963323313 / 50000000000000000000 \<and> 26963323313 / 50000000000000000000 \<le> T 10 \<and> T 10 \<le> 539266466261 / 1000000000000000000000"
    unfolding s9 by (rule sin_term_step[OF b9 r]) simp_all
  have s10: "T 11 = T 10 * (x * x) / 506"
    using step[of 10] by simp
  have b11: "(0::real) \<le> 2629617929 / 250000000000000000000 \<and> 2629617929 / 250000000000000000000 \<le> T 11 \<and> T 11 \<le> 10518471717 / 1000000000000000000000"
    unfolding s10 by (rule sin_term_step[OF b10 r]) simp_all
  have s11: "T 12 = T 11 * (x * x) / 600"
    using step[of 11] by simp
  have b12: "(0::real) \<le> 43255481 / 250000000000000000000 \<and> 43255481 / 250000000000000000000 \<le> T 12 \<and> T 12 \<le> 6920877 / 40000000000000000000"
    unfolding s11 by (rule sin_term_step[OF b11 r]) simp_all
  have s12: "T 13 = T 12 * (x * x) / 702"
    using step[of 12] by simp
  have b13: "(0::real) \<le> 2432561 / 1000000000000000000000 \<and> 2432561 / 1000000000000000000000 \<le> T 13 \<and> T 13 \<le> 1216281 / 500000000000000000000"
    unfolding s12 by (rule sin_term_step[OF b12 r]) simp_all
  have s13: "T 14 = T 13 * (x * x) / 812"
    using step[of 13] by simp
  have b14: "(0::real) \<le> 29567 / 1000000000000000000000 \<and> 29567 / 1000000000000000000000 \<le> T 14 \<and> T 14 \<le> 231 / 7812500000000000000"
    unfolding s13 by (rule sin_term_step[OF b13 r]) simp_all
  have s14: "T 15 = T 14 * (x * x) / 930"
    using step[of 14] by simp
  have b15: "(0::real) \<le> 313 / 1000000000000000000000 \<and> 313 / 1000000000000000000000 \<le> T 15 \<and> T 15 \<le> 157 / 500000000000000000000"
    unfolding s14 by (rule sin_term_step[OF b14 r]) simp_all
  show ?thesis
    using b0 b1 b2 b3 b4 b5 b6 b7 b8 b9 b10 b11 b12 b13 b14 b15 by linarith
qed

lemma sin_terms_next_double_neg:
  fixes T :: "nat \<Rightarrow> real" and x :: real
  assumes x: "x = 7074237752028441 / 2251799813685248" and T0: "T 0 = x"
    and step: "\<And>k. T (Suc k) = T k * (x * x) / (real (2 * k + 2) * real (2 * k + 3))"
  shows "T 0 - T 1 + T 2 - T 3 + T 4 - T 5 + T 6 - T 7 + T 8 - T 9 + T 10 - T 11 + T 12 - T 13 + T 14 - T 15 + T 16 < 0"
proof -
  have r: "(0::real) \<le> 9869604401089360639661 / 1000000000000000000000" "9869604401089360639661 / 1000000000000000000000 \<le> x * x" "x * x \<le> 4934802200544680319831 / 500000000000000000000"
    by (simp_all add: x)
  have b0: "(0::real) \<le> 3141592653589793560087 / 1000000000000000000000 \<and> 3141592653589793560087 / 1000000000000000000000 \<le> T 0 \<and> T 0 \<le> 392699081698724195011 / 125000000000000000000"
    by (simp add: T0 x)
  have s0: "T 1 = T 0 * (x * x) / 6"
    using step[of 0] by simp
  have b1: "(0::real) \<le> 5167712780049971616399 / 1000000000000000000000 \<and> 5167712780049971616399 / 1000000000000000000000 \<le> T 1 \<and> T 1 \<le> 2583856390024985808201 / 500000000000000000000"
    unfolding s0 by (rule sin_term_step[OF b0 r]) simp_all
  have s1: "T 2 = T 1 * (x * x) / 20"
    using step[of 1] by (simp add: numeral_2_eq_2[symmetric])
  have b2: "(0::real) \<le> 2550164039877346749237 / 1000000000000000000000 \<and> 2550164039877346749237 / 1000000000000000000000 \<le> T 2 \<and> T 2 \<le> 63754100996933668731 / 25000000000000000000"
    unfolding s1 by (rule sin_term_step[OF b1 r]) simp_all
  have s2: "T 3 = T 2 * (x * x) / 42"
    using step[of 2] by simp
  have b3: "(0::real) \<le> 29963226466039625317 / 50000000000000000000 \<and> 29963226466039625317 / 50000000000000000000 \<le> T 3 \<and> T 3 \<le> 299632264660396253171 / 500000000000000000000"
    unfolding s2 by (rule sin_term_step[OF b2 r]) simp_all
  have s3: "T 4 = T 3 * (x * x) / 72"
    using step[of 3] by simp
  have b4: "(0::real) \<le> 41072943305564152243 / 500000000000000000000 \<and> 41072943305564152243 / 500000000000000000000 \<le> T 4 \<and> T 4 \<le> 10268235826391038061 / 125000000000000000000"
    unfolding s3 by (rule sin_term_step[OF b3 r]) simp_all
  have s4: "T 5 = T 4 * (x * x) / 110"
    using step[of 4] by simp
  have b5: "(0::real) \<le> 7370430945714359077 / 1000000000000000000000 \<and> 7370430945714359077 / 1000000000000000000000 \<le> T 5 \<and> T 5 \<le> 3685215472857179539 / 500000000000000000000"
    unfolding s4 by (rule sin_term_step[OF b4 r]) simp_all
  have s5: "T 6 = T 5 * (x * x) / 156"
    using step[of 5] by simp
  have b6: "(0::real) \<le> 1821495335029739 / 3906250000000000000 \<and> 1821495335029739 / 3906250000000000000 \<le> T 6 \<and> T 6 \<le> 233151402883806593 / 500000000000000000000"
    unfolding s5 by (rule sin_term_step[OF b5 r]) simp_all
  have s6: "T 7 = T 6 * (x * x) / 210"
    using step[of 6] by simp
  have b7: "(0::real) \<le> 21915353447830249 / 1000000000000000000000 \<and> 21915353447830249 / 1000000000000000000000 \<le> T 7 \<and> T 7 \<le> 87661413791321 / 4000000000000000000"
    unfolding s6 by (rule sin_term_step[OF b6 r]) simp_all
  have s7: "T 8 = T 7 * (x * x) / 272"
    using step[of 7] by simp
  have b8: "(0::real) \<le> 24850168754611 / 31250000000000000000 \<and> 24850168754611 / 31250000000000000000 \<le> T 8 \<and> T 8 \<le> 795205400147553 / 1000000000000000000000"
    unfolding s7 by (rule sin_term_step[OF b7 r]) simp_all
  have s8: "T 9 = T 8 * (x * x) / 342"
    using step[of 8] by simp
  have b9: "(0::real) \<le> 22948428997269 / 1000000000000000000000 \<and> 22948428997269 / 1000000000000000000000 \<le> T 9 \<and> T 9 \<le> 2294842899727 / 100000000000000000000"
    unfolding s8 by (rule sin_term_step[OF b8 r]) simp_all
  have s9: "T 10 = T 9 * (x * x) / 420"
    using step[of 9] by simp
  have b10: "(0::real) \<le> 26963323313 / 50000000000000000000 \<and> 26963323313 / 50000000000000000000 \<le> T 10 \<and> T 10 \<le> 539266466261 / 1000000000000000000000"
    unfolding s9 by (rule sin_term_step[OF b9 r]) simp_all
  have s10: "T 11 = T 10 * (x * x) / 506"
    using step[of 10] by simp
  have b11: "(0::real) \<le> 2629617929 / 250000000000000000000 \<and> 2629617929 / 250000000000000000000 \<le> T 11 \<and> T 11 \<le> 10518471717 / 1000000000000000000000"
    unfolding s10 by (rule sin_term_step[OF b10 r]) simp_all
  have s11: "T 12 = T 11 * (x * x) / 600"
    using step[of 11] by simp
  have b12: "(0::real) \<le> 43255481 / 250000000000000000000 \<and> 43255481 / 250000000000000000000 \<le> T 12 \<and> T 12 \<le> 6920877 / 40000000000000000000"
    unfolding s11 by (rule sin_term_step[OF b11 r]) simp_all
  have s12: "T 13 = T 12 * (x * x) / 702"
    using step[of 12] by simp
  have b13: "(0::real) \<le> 2432561 / 1000000000000000000000 \<and> 2432561 / 1000000000000000000000 \<le> T 13 \<and> T 13 \<le> 1216281 / 500000000000000000000"
    unfolding s12 by (rule sin_term_step[OF b12 r]) simp_all
  have s13: "T 14 = T 13 * (x * x) / 812"
    using step[of 13] by simp
  have b14: "(0::real) \<le> 29567 / 1000000000000000000000 \<and> 29567 / 1000000000000000000000 \<le> T 14 \<and> T 14 \<le> 231 / 7812500000000000000"
    unfolding s13 by (rule sin_term_step[OF b13 r]) simp_all
  have s14: "T 15 = T 14 * (x * x) / 930"
    using step[of 14] by simp
  have b15: "(0::real) \<le> 313 / 1000000000000000000000 \<and> 313 / 1000000000000000000000 \<le> T 15 \<and> T 15 \<le> 157 / 500000000000000000000"
    unfolding s14 by (rule sin_term_step[OF b14 r]) simp_all
  have s15: "T 16 = T 15 * (x * x) / 1056"
    using step[of 15] by simp
  have b16: "(0::real) \<le> 1 / 500000000000000000000 \<and> 1 / 500000000000000000000 \<le> T 16 \<and> T 16 \<le> 3 / 1000000000000000000000"
    unfolding s15 by (rule sin_term_step[OF b15 r]) simp_all
  show ?thesis
    using b0 b1 b2 b3 b4 b5 b6 b7 b8 b9 b10 b11 b12 b13 b14 b15 b16 by linarith
qed

lemma sin_term_rec:
  fixes x :: real
  shows "x ^ (2 * Suc k + 1) / fact (2 * Suc k + 1)
           = x ^ (2 * k + 1) / fact (2 * k + 1) * (x * x) / (real (2 * k + 2) * real (2 * k + 3))"
proof -
  have "fact (2 * Suc k + 1) = (real (2 * k + 3) * real (2 * k + 2)) * fact (2 * k + 1)"
    by (simp add: algebra_simps)
  then show ?thesis by (simp add: field_simps)
qed

lemma sin_coeff_sum_terms:
  fixes x :: real
  shows "(\<Sum>m<2 * n. sin_coeff m * x ^ m) = (\<Sum>k<n. (- 1) ^ k * (x ^ (2 * k + 1) / fact (2 * k + 1)))"
proof (induction n)
  case 0
  then show ?case by simp
next
  case (Suc n)
  have "(\<Sum>m<2 * Suc n. sin_coeff m * x ^ m)
          = (\<Sum>m<2 * n. sin_coeff m * x ^ m) + sin_coeff (2 * n) * x ^ (2 * n)
              + sin_coeff (Suc (2 * n)) * x ^ Suc (2 * n)"
    by simp
  also have "sin_coeff (2 * n) = 0" by (simp add: sin_coeff_def)
  also have "sin_coeff (Suc (2 * n)) = (- 1) ^ n / fact (2 * n + 1)"
    by (simp add: sin_coeff_def)
  finally show ?case using Suc.IH by simp
qed

lemma Math_PI_less_pi: "Math_PI < pi"
proof -
  define T :: "nat \<Rightarrow> real"
    where "T = (\<lambda>k. Math_PI ^ (2 * k + 1) / fact (2 * k + 1))"
  have x: "Math_PI = 884279719003555 / 281474976710656" by (rule Math_PI_def)
  have T0: "T 0 = Math_PI" by (simp add: T_def)
  have step: "T (Suc k) = T k * (Math_PI * Math_PI) / (real (2 * k + 2) * real (2 * k + 3))"
    for k unfolding T_def by (rule sin_term_rec)
  have pos: "0 < T 0 - T 1 + T 2 - T 3 + T 4 - T 5 + T 6 - T 7 + T 8 - T 9 + T 10 - T 11 + T 12 - T 13 + T 14 - T 15"
    using x T0 step by (rule sin_terms_Math_PI_pos)
  have "(\<Sum>m<31. sin_coeff m * Math_PI ^ m) = (\<Sum>m<2 * 15. sin_coeff m * Math_PI ^ m)"
    using sum.lessThan_Suc[of "\<lambda>m. sin_coeff m * Math_PI ^ m" 30] by (simp add: sin_coeff_def)
  also have "\<dots> = (\<Sum>k<15. (- 1) ^ k * T k)"
    unfolding T_def by (rule sin_coeff_sum_terms)
  also have "\<dots> = T 0 - T 1 + T 2 - T 3 + T 4 - T 5 + T 6 - T 7 + T 8 - T 9 + T 10 - T 11 + T 12 - T 13 + T 14"
    by (simp add: lessThan_nat_numeral)
  finally have sum: "(\<Sum>m<31. sin_coeff m * Math_PI ^ m) = T 0 - T 1 + T 2 - T 3 + T 4 - T 5 + T 6 - T 7 + T 8 - T 9 + T 10 - T 11 + T 12 - T 13 + T 14" .
  have "0 < Math_PI" "Math_PI < 4" by (simp_all add: Math_PI_def)
  then have "\<bar>Math_PI\<bar> = Math_PI" by simp
  moreover have "2 * 15 + 1 = (31::nat)" by simp
  ultimately have rem: "inverse (fact 31) * \<bar>Math_PI\<bar> ^ 31 = T 15"
    unfolding T_def by (simp only: divide_inverse mult.commute)
  have "(\<Sum>m<31. sin_coeff m * Math_PI ^ m) - inverse (fact 31) * \<bar>Math_PI\<bar> ^ 31 \<le> sin Math_PI"
    using Maclaurin_sin_bound[of Math_PI 31] by linarith
  then have s: "0 < sin Math_PI" using pos sum rem by linarith
  show ?thesis
  proof (rule ccontr)
    assume "\<not> Math_PI < pi"
    then have "pi \<le> Math_PI" by simp
    moreover have "Math_PI < 2 * pi" using \<open>Math_PI < 4\<close> pi_ge_two by linarith
    ultimately have "sin Math_PI \<le> 0" by (rule sin_le_zero)
    then show False using s by simp
  qed
qed

lemma pi_less_next_double: "pi < Math_PI + 1 / 2 ^ 51"
proof -
  define y :: real where "y = 7074237752028441 / 2251799813685248"
  define T :: "nat \<Rightarrow> real"
    where "T = (\<lambda>k. y ^ (2 * k + 1) / fact (2 * k + 1))"
  have T0: "T 0 = y" by (simp add: T_def)
  have step: "T (Suc k) = T k * (y * y) / (real (2 * k + 2) * real (2 * k + 3))"
    for k unfolding T_def by (rule sin_term_rec)
  have neg: "T 0 - T 1 + T 2 - T 3 + T 4 - T 5 + T 6 - T 7 + T 8 - T 9 + T 10 - T 11 + T 12 - T 13 + T 14 - T 15 + T 16 < 0"
    using y_def T0 step by (rule sin_terms_next_double_neg)
  have "(\<Sum>m<33. sin_coeff m * y ^ m) = (\<Sum>m<2 * 16. sin_coeff m * y ^ m)"
    using sum.lessThan_Suc[of "\<lambda>m. sin_coeff m * y ^ m" 32] by (simp add: sin_coeff_def)
  also have "\<dots> = (\<Sum>k<16. (- 1) ^ k * T k)"
    unfolding T_def by (rule sin_coeff_sum_terms)
  also have "\<dots> = T 0 - T 1 + T 2 - T 3 + T 4 - T 5 + T 6 - T 7 + T 8 - T 9 + T 10 - T 11 + T 12 - T 13 + T 14 - T 15"
    by (simp add: lessThan_nat_numeral)
  finally have sum: "(\<Sum>m<33. sin_coeff m * y ^ m) = T 0 - T 1 + T 2 - T 3 + T 4 - T 5 + T 6 - T 7 + T 8 - T 9 + T 10 - T 11 + T 12 - T 13 + T 14 - T 15" .
  have "0 \<le> y" by (simp add: y_def)
  then have "\<bar>y\<bar> = y" by simp
  moreover have "2 * 16 + 1 = (33::nat)" by simp
  ultimately have rem: "inverse (fact 33) * \<bar>y\<bar> ^ 33 = T 16"
    unfolding T_def by (simp only: divide_inverse mult.commute)
  have "sin y \<le> (\<Sum>m<33. sin_coeff m * y ^ m) + inverse (fact 33) * \<bar>y\<bar> ^ 33"
    using Maclaurin_sin_bound[of y 33] by linarith
  then have s: "sin y < 0" using neg sum rem by linarith
  have "pi < y"
  proof (rule ccontr)
    assume "\<not> pi < y"
    then have "y \<le> pi" by simp
    with \<open>0 \<le> y\<close> have "0 \<le> sin y" by (rule sin_ge_zero)
    then show False using s by simp
  qed
  moreover have "y = Math_PI + 1 / 2 ^ 51" by (simp add: y_def Math_PI_def)
  ultimately show ?thesis by simp
qed

lemma Math_PI_bounds: "3 < Math_PI" "Math_PI < 4"
  by (simp_all add: Math_PI_def)

lemma sun_angle_at_sunset:
  "t \<le> 18 \<Longrightarrow> ((t - 6) / 12) * Math_PI < pi"
  "18 + 1 / 2 ^ 48 \<le> t \<Longrightarrow> pi \<le> ((t - 6) / 12) * Math_PI"
proof -
  have p: "0 < Math_PI" using Math_PI_bounds(1) by simp
  show "((t - 6) / 12) * Math_PI < pi" if "t \<le> 18"
  proof -
    have "((t - 6) / 12) * Math_PI \<le> 1 * Math_PI"
      using that p by (intro mult_right_mono) auto
    then show ?thesis using Math_PI_less_pi by simp
  qed
  show "pi \<le> ((t - 6) / 12) * Math_PI" if "18 + 1 / 2 ^ 48 \<le> t"
  proof -
    have "1 + 1 / (12 * 2 ^ 48) \<le> (t - 6) / 12" using that by simp
    then have "(1 + 1 / (12 * 2 ^ 48)) * Math_PI \<le> ((t - 6) / 12) * Math_PI"
      using p by (intro mult_right_mono) auto
    moreover have "Math_PI + 1 / 2 ^ 51 \<le> (1 + 1 / (12 * 2 ^ 48)) * Math_PI"
      by (simp add: Math_PI_def)
    ultimately show ?thesis using pi_less_next_double by linarith
  qed
qed

subsection \<open>The sun\<close>

lemma applyRotationXYZ_identity:
  "applyRotationXYZ (Vector3 0 0 0) p = Vector3 (vx p) (vy p) (vz p)"
  by (simp add: applyRotationXYZ_def Vector3_def)

lemma sunPosition_identity_y:
  "orbitRotation s = Vector3 0 0 0 \<Longrightarrow>
     vy (sunPosition s t) = sin (((t - 6) / 12) * Math_PI) * sunDistance s"
  by (simp add: sunPosition_def applyRotationXYZ_identity Let_def) (simp add: Vector3_def)

lemma sin_sun_angle_pos:
  assumes "0 \<le> t" "t < 24"
  shows "0 < sin (((t - 6) / 12) * Math_PI) \<longleftrightarrow> 6 < t \<and> ((t - 6) / 12) * Math_PI < pi"
proof -
  let ?a = "((t - 6) / 12) * Math_PI"
  have p: "0 < Math_PI" using Math_PI_bounds(1) by simp
  consider "t \<le> 6" | "6 < t \<and> ?a < pi" | "6 < t \<and> pi \<le> ?a" by linarith
  then show ?thesis
  proof cases
    case 1
    have "0 \<le> - ?a" using 1 p by (simp add: mult_nonpos_nonneg)
    moreover have "- ?a \<le> pi"
    proof -
      have "- ?a = ((6 - t) / 12) * Math_PI" by (simp add: field_simps)
      also have "\<dots> \<le> 1 * Math_PI" using assms(1) p by (intro mult_right_mono) auto
      finally show ?thesis using Math_PI_less_pi by simp
    qed
    ultimately have "0 \<le> sin (- ?a)" by (rule sin_ge_zero)
    then have "sin ?a \<le> 0" by simp
    then show ?thesis using 1 by auto
  next
    case 2
    have "0 < ?a" using 2 p by simp
    then have "0 < sin ?a" using 2 by (intro sin_gt_zero) simp_all
    then show ?thesis using 2 by simp
  next
    case 3
    have "?a < (3 / 2) * Math_PI" using assms(2) p by (intro mult_strict_right_mono) auto
    then have "?a < 2 * pi" using Math_PI_less_pi p by linarith
    with 3 have "sin ?a \<le> 0" by (intro sin_le_zero) simp_all
    then show ?thesis using 3 by auto
  qed
qed

lemma sunMesh_visible_identity:
  assumes "sunMesh s = Some m" and "orbitRotation s = Vector3 0 0 0" and "0 < sunDistance s"
    and "0 \<le> t" and "t < 24"
  shows "map_option visible (sunMesh (setTime t s))
           = Some (6 < t \<and> ((t - 6) / 12) * Math_PI < pi)"
proof -
  have "vy (sunPosition s t) = sin (((t - 6) / 12) * Math_PI) * sunDistance s"
    using assms(2) by (rule sunPosition_identity_y)
  then have "(0 < vy (sunPosition s t)) \<longleftrightarrow> 0 < sin (((t - 6) / 12) * Math_PI)"
    using assms(3) by (simp add: zero_less_mult_iff)
  then have "(0 < vy (sunPosition s t)) \<longleftrightarrow> (6 < t \<and> ((t - 6) / 12) * Math_PI < pi)"
    using sin_sun_angle_pos[OF assms(4,5)] by simp
  then show ?thesis
    using assms(1) by (simp add: setTime_def updateLighting_sunMesh)
qed

text \<open>
  Claim C4, as amended. The sun mesh is put at the orbit-rotated sun position and is
  visible exactly when the Y component of that position is greater than 0. With the orbit
  rotation \<open>(0, 0, 0)\<close> (and the sun at a positive distance), for every \<open>timeOfDay\<close> \<open>t\<close> of
  the day \<open>[0, 24)\<close> the sun is visible if and only if \<open>6 < t\<close> and the sun angle
  \<open>((t - 6) / 12) * Math.PI\<close> is below \<open>pi\<close>. The angle is below \<open>pi\<close> for every \<open>t \<le> 18\<close>, and
  is not for any \<open>t \<ge> 18 + 1 / 2^48\<close>, the next double after 18. So for every \<open>t\<close> not
  strictly between those two the sun is visible if and only if \<open>6 < t \<le> 18\<close>: it is hidden
  on \<open>[0, 6]\<close>, and at 18 o'clock, where the sun angle is \<open>Math.PI\<close> and its sine is still
  positive, it is visible. The presets and the global sun intensity have no part in it.
\<close>

theorem sun_visible_iff:
  assumes "sunMesh s = Some m"
  shows "(\<exists>m'. sunMesh (setTime t s) = Some m'
           \<and> mesh_position m' =
               applyRotationXYZ (orbitRotation s)
                 (Vector3 (cos (((t - 6) / 12) * Math_PI) * sunDistance s)
                          (sin (((t - 6) / 12) * Math_PI) * sunDistance s) 0)
           \<and> (visible m' \<longleftrightarrow> 0 < vy (mesh_position m')))
         \<and> (orbitRotation s = Vector3 0 0 0 \<and> 0 < sunDistance s \<and> 0 \<le> t \<and> t < 24 \<longrightarrow>
              (\<exists>m'. sunMesh (setTime t s) = Some m'
                 \<and> (visible m' \<longleftrightarrow> 6 < t \<and> ((t - 6) / 12) * Math_PI < pi)
                 \<and> (t \<le> 18 \<or> 18 + 1 / 2 ^ 48 \<le> t \<longrightarrow> (visible m' \<longleftrightarrow> 6 < t \<and> t \<le> 18))))
         \<and> (t \<le> 18 \<longrightarrow> ((t - 6) / 12) * Math_PI < pi)
         \<and> (18 + 1 / 2 ^ 48 \<le> t \<longrightarrow> pi \<le> ((t - 6) / 12) * Math_PI)
         \<and> map_option visible
              (sunMesh (setTime t (s\<lparr> timeColorPresets := P, sunIntensity := i \<rparr>)))
             = map_option visible (sunMesh (setTime t s))"
proof -
  let ?pos = "sunPosition s t"
  let ?a = "((t - 6) / 12) * Math_PI"
  have mesh: "sunMesh (setTime t s) =
      Some (m\<lparr> mesh_position := ?pos,
               material_color := sun (getColorsForTime (timeColorPresets s) t),
               visible := (0 < vy ?pos) \<rparr>)"
    using assms by (simp add: setTime_def updateLighting_sunMesh)
  have pos: "?pos = applyRotationXYZ (orbitRotation s)
                 (Vector3 (cos ?a * sunDistance s) (sin ?a * sunDistance s) 0)"
    by (simp add: sunPosition_def Let_def)
  have first: "\<exists>m'. sunMesh (setTime t s) = Some m'
           \<and> mesh_position m' =
               applyRotationXYZ (orbitRotation s)
                 (Vector3 (cos ?a * sunDistance s) (sin ?a * sunDistance s) 0)
           \<and> (visible m' \<longleftrightarrow> 0 < vy (mesh_position m'))"
    using mesh pos by simp
  have thr: "t \<le> 18 \<longrightarrow> ?a < pi" "18 + 1 / 2 ^ 48 \<le> t \<longrightarrow> pi \<le> ?a"
    using sun_angle_at_sunset[of t] by blast+
  have second: "\<exists>m'. sunMesh (setTime t s) = Some m'
                 \<and> (visible m' \<longleftrightarrow> 6 < t \<and> ?a < pi)
                 \<and> (t \<le> 18 \<or> 18 + 1 / 2 ^ 48 \<le> t \<longrightarrow> (visible m' \<longleftrightarrow> 6 < t \<and> t \<le> 18))"
    if h: "orbitRotation s = Vector3 0 0 0" "0 < sunDistance s" "0 \<le> t" "t < 24"
  proof -
    have v: "map_option visible (sunMesh (setTime t s)) = Some (6 < t \<and> ?a < pi)"
      using assms h by (rule sunMesh_visible_identity)
    then obtain m' where m': "sunMesh (setTime t s) = Some m'" "visible m' \<longleftrightarrow> 6 < t \<and> ?a < pi"
      by auto
    have "visible m' \<longleftrightarrow> 6 < t \<and> t \<le> 18" if "t \<le> 18 \<or> 18 + 1 / 2 ^ 48 \<le> t"
    proof -
      have "?a < pi \<longleftrightarrow> t \<le> 18"
      proof
        assume "?a < pi"
        then have "\<not> 18 + 1 / 2 ^ 48 \<le> t" using thr(2) by auto
        then show "t \<le> 18" using that by blast
      next
        assume "t \<le> 18"
        then show "?a < pi" using thr(1) by blast
      qed
      then show ?thesis using m'(2) by simp
    qed
    then show ?thesis using m' by blast
  qed
  have indep: "map_option visible
              (sunMesh (setTime t (s\<lparr> timeColorPresets := P, sunIntensity := i \<rparr>)))
             = map_option visible (sunMesh (setTime t s))"
    by (simp add: setTime_def updateLighting_sunMesh sunPosition_def option.map_comp comp_def)
  show ?thesis
    using first second thr indep by blast
qed

theorem sun_visible_iff_witness:
  "sunMesh main_timeOfDay = Some createSunMesh
   \<and> orbitRotation main_timeOfDay = Vector3 0 0 0
   \<and> 0 < sunDistance main_timeOfDay
   \<and> (0::real) \<le> 12 \<and> (12::real) < 24 \<and> (12::real) \<le> 18
   \<and> (0::real) \<le> 20 \<and> (20::real) < 24 \<and> (18::real) + 1 / 2 ^ 48 \<le> 20
   \<and> (0::real) \<le> 6 \<and> (6::real) < 24 \<and> (6::real) \<le> 18
   \<and> map_option visible (sunMesh (setTime 12 main_timeOfDay)) = Some True
   \<and> map_option visible (sunMesh (setTime 20 main_timeOfDay)) = Some False
   \<and> map_option visible (sunMesh (setTime 6 main_timeOfDay)) = Some False"
proof -
  have h: "sunMesh main_timeOfDay = Some createSunMesh"
    and r: "orbitRotation main_timeOfDay = Vector3 0 0 0"
    and d: "0 < sunDistance main_timeOfDay"
    by (simp_all add: main_timeOfDay_def constructor_def)
  have n: "(0::real) \<le> 12" "(12::real) < 24" "(12::real) \<le> 18"
    "(0::real) \<le> 20" "(20::real) < 24" "(18::real) + 1 / 2 ^ 48 \<le> 20"
    "(0::real) \<le> 6" "(6::real) < 24" "(6::real) \<le> 18"
    by simp_all
  have "\<exists>m'. sunMesh (setTime 12 main_timeOfDay) = Some m'
            \<and> (visible m' \<longleftrightarrow> (6::real) < 12 \<and> (12::real) \<le> 18)"
    using sun_visible_iff[OF h, of 12] r d n(1,2,3) by blast
  moreover have "\<exists>m'. sunMesh (setTime 20 main_timeOfDay) = Some m'
            \<and> (visible m' \<longleftrightarrow> (6::real) < 20 \<and> (20::real) \<le> 18)"
    using sun_visible_iff[OF h, of 20] r d n(4,5,6) by blast
  moreover have "\<exists>m'. sunMesh (setTime 6 main_timeOfDay) = Some m'
            \<and> (visible m' \<longleftrightarrow> (6::real) < 6 \<and> (6::real) \<le> 18)"
    using sun_visible_iff[OF h, of 6] r d n(7,8,9) by blast
  ultimately show ?thesis using h r d by auto
qed

text \<open>
  The claim as first stated has the sun hidden at 18 o'clock. On the engine as constructed,
  \<open>setTime(18)\<close> shows it: the sun angle is \<open>Math.PI\<close>, below \<open>pi\<close>, so that its sine, and
  with it the height of the sun, is positive.
\<close>

theorem sun_at_18_counterexample:
  "map_option visible (sunMesh (setTime 18 main_timeOfDay)) = Some True
   \<and> 0 < vy (light_position (directionalLight (setTime 18 main_timeOfDay)))"
proof -
  have h: "sunMesh main_timeOfDay = Some createSunMesh"
    "orbitRotation main_timeOfDay = Vector3 0 0 0" "0 < sunDistance main_timeOfDay"
    "(0::real) \<le> 18" "(18::real) < 24"
    by (simp_all add: main_timeOfDay_def constructor_def)
  have a: "((18 - 6) / 12) * Math_PI < pi"
    by (rule sun_angle_at_sunset(1)) simp
  have v: "map_option visible (sunMesh (setTime 18 main_timeOfDay)) = Some True"
    using sunMesh_visible_identity[OF h] a by simp
  have "vy (sunPosition main_timeOfDay 18)
          = sin (((18 - 6) / 12) * Math_PI) * sunDistance main_timeOfDay"
    using h(2) by (rule sunPosition_identity_y)
  moreover have "0 < sin (((18 - 6) / 12) * Math_PI)"
    using sin_sun_angle_pos[OF h(4,5)] a by simp
  ultimately have "0 < vy (sunPosition main_timeOfDay 18)" using h(3) by simp
  then show ?thesis using v by (simp add: setTime_def updateLighting_light)
qed

lemma getColorsForTime_noon: "11 \<le> t \<Longrightarrow> t < 15 \<Longrightarrow> getColorsForTime P t = noon P"
  by (simp add: getColorsForTime_def)

lemma update_at_noon:
  assumes "timeOfDay s = 12" and "TimeOfDaySystem.sunIntensity s = 1"
    and "\<not> enabled s \<or> timeSpeed s = 0"
    and "timeColorPresets s = defaultPresets"
    and "orbitRotation s = Vector3 0 0 0" and "0 < sunDistance s"
    and "sunMesh s = Some m"
  shows "intensity (directionalLight (update dt s))
             = TimePreset.sunIntensity (noon (timeColorPresets s)) * 1
         \<and> intensity (directionalLight (update dt s)) = 2
         \<and> light_color (directionalLight (update dt s)) = sun (noon (timeColorPresets s))
         \<and> light_color (directionalLight (update dt s)) = Color 0xfffaf0
         \<and> map_option visible (sunMesh (update dt s)) = Some True"
proof -
  have t: "timeOfDay (update dt s) = 12"
    using assms(1,3) by (auto simp: update_timeOfDay)
  then have u: "update dt s = updateLighting (s\<lparr> timeOfDay := 12 \<rparr>)"
    using update_is_updateLighting[of dt s] by simp
  have c: "getColorsForTime (timeColorPresets s) 12 = noon (timeColorPresets s)"
    by (rule getColorsForTime_noon) simp_all
  have "vy (sunPosition s 12) = sin (((12 - 6) / 12) * Math_PI) * sunDistance s"
    using assms(5) by (rule sunPosition_identity_y)
  moreover have "0 < sin (((12 - 6) / 12) * Math_PI)"
  proof -
    have "((12 - 6) / 12) * Math_PI < pi" by (rule sun_angle_at_sunset(1)) simp
    then show ?thesis using sin_sun_angle_pos[of 12] by simp
  qed
  ultimately have v: "0 < vy (sunPosition s 12)"
    using assms(6) by simp
  have i: "intensity (directionalLight (update dt s))
             = TimePreset.sunIntensity (noon (timeColorPresets s)) * 1"
    using assms(2) by (simp add: u updateLighting_light c)
  have l: "light_color (directionalLight (update dt s)) = sun (noon (timeColorPresets s))"
    by (simp add: u updateLighting_light c)
  have vis: "map_option visible (sunMesh (update dt s)) = Some True"
    using assms(7) v by (simp add: u updateLighting_sunMesh)
  have n: "TimePreset.sunIntensity (noon defaultPresets) = 2"
    "sun (noon defaultPresets) = Color 0xfffaf0"
    by (simp_all add: defaultPresets_def)
  show ?thesis
    using i l vis n assms(4) by simp
qed

text \<open>
  Claim C5. For every \<open>t\<close> in \<open>[11, 15)\<close>, \<open>getColorsForTime(t)\<close> is the noon preset itself.
  So in the engine as constructed (its presets, no orbit rotation, the sun mesh), with
  \<open>timeOfDay = 12\<close>, the global sun intensity 1 and a clock that does not advance (cycle
  disabled, or time speed 0), \<open>update\<close> writes the directional-light intensity
  \<open>noon.sunIntensity * 1 = 2\<close> and the noon sun colour, and the sun mesh is visible.
\<close>

theorem noon_plateau:
  "(11 \<le> t \<and> t < 15 \<longrightarrow> getColorsForTime P t = noon P)
   \<and> (timeOfDay s = 12 \<and> TimeOfDaySystem.sunIntensity s = 1
        \<and> (\<not> enabled s \<or> timeSpeed s = 0)
        \<and> timeColorPresets s = defaultPresets
        \<and> orbitRotation s = Vector3 0 0 0 \<and> 0 < sunDistance s
        \<and> sunMesh s \<noteq> None
      \<longrightarrow> intensity (directionalLight (update dt s))
             = TimePreset.sunIntensity (noon (timeColorPresets s)) * 1
         \<and> intensity (directionalLight (update dt s)) = 2
         \<and> light_color (directionalLight (update dt s)) = sun (noon (timeColorPresets s))
         \<and> light_color (directionalLight (update dt s)) = Color 0xfffaf0
         \<and> map_option visible (sunMesh (update dt s)) = Some True)"
  using update_at_noon[of s _ dt] by (auto simp: getColorsForTime_noon)

theorem noon_plateau_witness:
  "timeOfDay (setSunIntensity 1 (setTimeSpeed 0 (setTime 12 main_timeOfDay))) = 12
   \<and> TimeOfDaySystem.sunIntensity (setSunIntensity 1 (setTimeSpeed 0 (setTime 12 main_timeOfDay))) = 1
   \<and> timeSpeed (setSunIntensity 1 (setTimeSpeed 0 (setTime 12 main_timeOfDay))) = 0
   \<and> timeColorPresets (setSunIntensity 1 (setTimeSpeed 0 (setTime 12 main_timeOfDay)))
       = defaultPresets
   \<and> orbitRotation (setSunIntensity 1 (setTimeSpeed 0 (setTime 12 main_timeOfDay)))
       = Vector3 0 0 0
   \<and> 0 < sunDistance (setSunIntensity 1 (setTimeSpeed 0 (setTime 12 main_timeOfDay)))
   \<and> sunMesh (setSunIntensity 1 (setTimeSpeed 0 (setTime 12 main_timeOfDay))) \<noteq> None
   \<and> getColorsForTime defaultPresets 11 = noon defaultPresets
   \<and> intensity (directionalLight
        (update 1 (setSunIntensity 1 (setTimeSpeed 0 (setTime 12 main_timeOfDay))))) = 2
   \<and> map_option visible (sunMesh
        (update 1 (setSunIntensity 1 (setTimeSpeed 0 (setTime 12 main_timeOfDay))))) = Some True"
proof -
  let ?s = "setSunIntensity 1 (setTimeSpeed 0 (setTime 12 main_timeOfDay))"
  have h: "timeOfDay ?s = 12" "TimeOfDaySystem.sunIntensity ?s = 1"
    "\<not> enabled ?s \<or> timeSpeed ?s = 0" "timeColorPresets ?s = defaultPresets"
    "orbitRotation ?s = Vector3 0 0 0" "0 < sunDistance ?s"
    by (simp_all add: setSunIntensity_def setTimeSpeed_def setTime_def main_timeOfDay_def
          constructor_def)
  obtain m where m: "sunMesh ?s = Some m"
    by (auto simp: setSunIntensity_def setTimeSpeed_def setTime_def main_timeOfDay_def
          constructor_def updateLighting_sunMesh)
  have "timeSpeed ?s = 0"
    by (simp add: setSunIntensity_def setTimeSpeed_def)
  moreover have "(11::real) \<le> 11 \<and> (11::real) < 15" by simp
  ultimately show ?thesis
    using noon_plateau[of 11 defaultPresets ?s 1] h m by auto
qed

section \<open>Properties of the locomotion engine\<close>

subsection \<open>The camera vectors\<close>

lemma getForwardVector_eq: "getForwardVector c = Vector3 (- sin (yaw c)) 0 (- cos (yaw c))"
proof -
  have s: "sin (yaw c) = 2 * sin (yaw c / 2) * cos (yaw c / 2)"
    using sin_double[of "yaw c / 2"] by simp
  have k: "cos (yaw c) = 1 - 2 * (sin (yaw c / 2) * sin (yaw c / 2))"
    using cos_double_sin[of "yaw c / 2"] by (simp add: power2_eq_square)
  show ?thesis
    by (simp add: getForwardVector_def applyEulerYXZ_def Vector3_def Let_def s k)
qed

lemma getRightVector_eq: "getRightVector c = Vector3 (cos (yaw c)) 0 (- sin (yaw c))"
proof -
  have s: "sin (yaw c) = 2 * sin (yaw c / 2) * cos (yaw c / 2)"
    using sin_double[of "yaw c / 2"] by simp
  have k: "cos (yaw c) = 1 - 2 * (sin (yaw c / 2) * sin (yaw c / 2))"
    using cos_double_sin[of "yaw c / 2"] by (simp add: power2_eq_square)
  show ?thesis
    by (simp add: getRightVector_def applyEulerYXZ_def Vector3_def Let_def s k)
qed

lemma Vector3_sel [simp]:
  "vx (Vector3 a b c) = a" "vy (Vector3 a b c) = b" "vz (Vector3 a b c) = c"
  by (simp_all add: Vector3_def)

lemma vec_ops_y [simp]:
  "vy (add_vec v w) = vy v + vy w" "vy (sub_vec v w) = vy v - vy w"
  "vy (multiplyScalar v s) = vy v * s"
  by (simp_all add: add_vec_def sub_vec_def multiplyScalar_def)

lemma normalize_vec_y [simp]: "vy v = 0 \<Longrightarrow> vy (normalize_vec v) = 0"
  by (simp add: normalize_vec_def)

lemma moveDirection_y_zero:
  "vy (getForwardVector c) = 0" "vy (getRightVector c) = 0"
  by (simp_all add: getForwardVector_eq getRightVector_eq)

subsection \<open>The free-flight integrator\<close>

lemma updateFreeCamera_up_down:
  assumes "up (keys p)" "down (keys p)"
  shows "vy (camera_position (snd (updateFreeCamera dt c p))) = vy (camera_position c)"
    and "position (fst (updateFreeCamera dt c p)) = camera_position (snd (updateFreeCamera dt c p))"
  using assms by (simp_all add: updateFreeCamera_def Let_def moveDirection_y_zero)

text \<open>
  Claim C9. In free-camera mode, with \<open>up\<close> and \<open>down\<close> both pressed, one update leaves the
  y coordinate of the camera as it was, for every yaw, speed and frame time and whatever
  other keys are held: the forward and right vectors have no vertical part, and the \<open>+1\<close>
  and \<open>-1\<close> cancel before the direction is normalized. The player, copied from the
  camera, is at that height too.
\<close>

theorem free_camera_up_down_cancel:
  "vy (camera_position (snd (updateFreeCamera dt c (p\<lparr> keys := k\<lparr> up := True, down := True \<rparr> \<rparr>))))
     = vy (camera_position c)
   \<and> vy (position (fst (updateFreeCamera dt c (p\<lparr> keys := k\<lparr> up := True, down := True \<rparr> \<rparr>))))
     = vy (camera_position c)
   \<and> (currentMode c = FREE_CAMERA \<longrightarrow>
        vy (camera_position (snd (Player_update dt c (p\<lparr> keys := k\<lparr> up := True, down := True \<rparr> \<rparr>))))
          = vy (camera_position c))"
proof -
  let ?p = "p\<lparr> keys := k\<lparr> up := True, down := True \<rparr> \<rparr>"
  have u: "up (keys ?p)" "down (keys ?p)" by simp_all
  note a = updateFreeCamera_up_down[OF u, of dt c]
  have "currentMode c = FREE_CAMERA \<Longrightarrow>
      camera_position (snd (Player_update dt c ?p)) = camera_position (snd (updateFreeCamera dt c ?p))"
    by (simp add: Player_update_def Let_def split: prod.splits)
  then show ?thesis using a by simp
qed

theorem free_camera_up_down_cancel_witness:
  "currentMode (new_CameraController\<lparr> currentMode := FREE_CAMERA \<rparr>) = FREE_CAMERA
   \<and> vy (camera_position (snd (Player_update 1 (new_CameraController\<lparr> currentMode := FREE_CAMERA \<rparr>)
        (new_Player\<lparr> keys := no_keys\<lparr> up := True, down := True \<rparr> \<rparr>)))) = 0"
  using free_camera_up_down_cancel[where dt = 1
      and c = "new_CameraController\<lparr> currentMode := FREE_CAMERA \<rparr>"
      and p = new_Player and k = no_keys]
  by (simp add: new_CameraController_def)

subsection \<open>The grounded integrator: the vertical part of one step\<close>

lemma updatePlayerMovement_params [simp]:
  "groundLevel (updatePlayerMovement dt c p) = groundLevel p"
  "gravity (updatePlayerMovement dt c p) = gravity p"
  "jumpForce (updatePlayerMovement dt c p) = jumpForce p"
  "speed (updatePlayerMovement dt c p) = speed p"
  "fastSpeed (updatePlayerMovement dt c p) = fastSpeed p"
  "keys (updatePlayerMovement dt c p) = keys p"
  by (simp_all add: updatePlayerMovement_def Let_def)

lemma updatePlayerMovement_lands:
  assumes "vy (position p)
             + (if jump (keys p) \<and> isGrounded p then jumpForce p
                else vy (velocity p) + gravity p * dt) * dt \<le> groundLevel p"
  shows "vy (position (updatePlayerMovement dt c p)) = groundLevel p"
    and "vy (velocity (updatePlayerMovement dt c p)) = 0"
    and "isGrounded (updatePlayerMovement dt c p)"
  using assms by (auto simp: updatePlayerMovement_def Let_def split: if_splits)

lemma updatePlayerMovement_airborne:
  assumes "groundLevel p < vy (position p)
             + (if jump (keys p) \<and> isGrounded p then jumpForce p
                else vy (velocity p) + gravity p * dt) * dt"
  shows "vy (position (updatePlayerMovement dt c p)) =
           vy (position p)
             + (if jump (keys p) \<and> isGrounded p then jumpForce p
                else vy (velocity p) + gravity p * dt) * dt"
    and "vy (velocity (updatePlayerMovement dt c p)) =
           (if jump (keys p) \<and> isGrounded p then jumpForce p
            else vy (velocity p) + gravity p * dt)"
    and "isGrounded (updatePlayerMovement dt c p) \<longleftrightarrow> isGrounded p \<and> \<not> jump (keys p)"
  using assms by (auto simp: updatePlayerMovement_def Let_def split: if_splits)

lemma updatePlayerMovement_above_ground:
  "groundLevel p \<le> vy (position (updatePlayerMovement dt c p))"
proof (cases "vy (position p)
             + (if jump (keys p) \<and> isGrounded p then jumpForce p
                else vy (velocity p) + gravity p * dt) * dt \<le> groundLevel p")
  case True
  then show ?thesis using updatePlayerMovement_lands(1)[of p dt c] by simp
next
  case False
  then show ?thesis using updatePlayerMovement_airborne(1)[of p dt c] by simp
qed

lemma Player_update_grounded:
  assumes "currentMode c \<noteq> FREE_CAMERA"
  shows "position (fst (Player_update dt c p)) = position (updatePlayerMovement dt c p)"
    and "velocity (fst (Player_update dt c p)) = velocity (updatePlayerMovement dt c p)"
    and "isGrounded (fst (Player_update dt c p)) = isGrounded (updatePlayerMovement dt c p)"
    and "groundLevel (fst (Player_update dt c p)) = groundLevel p"
    and "snd (Player_update dt c p) = c"
  using assms by (simp_all add: Player_update_def Let_def)

lemma groundedFrames_params [simp]:
  "groundLevel (groundedFrames inp n p) = groundLevel p"
  "gravity (groundedFrames inp n p) = gravity p"
  "jumpForce (groundedFrames inp n p) = jumpForce p"
  by (induction n) simp_all

lemma grounded_stays:
  assumes "vy (position p) = groundLevel p" "vy (velocity p) \<le> 0" "gravity p \<le> 0"
    and "\<And>n. \<not> jump (frame_keys (inp n))" "\<And>n. 0 \<le> frame_dt (inp n)"
  shows "vy (position (groundedFrames inp n p)) = groundLevel p
         \<and> vy (velocity (groundedFrames inp n p)) \<le> 0
         \<and> (0 < n \<longrightarrow> isGrounded (groundedFrames inp n p)
                        \<and> vy (velocity (groundedFrames inp n p)) = 0)"
proof (induction n)
  case 0
  then show ?case using assms(1,2) by simp
next
  case (Suc n)
  let ?q = "(groundedFrames inp n p)\<lparr> keys := frame_keys (inp n) \<rparr>"
  let ?dt = "frame_dt (inp n)"
  have "(vy (velocity ?q) + gravity ?q * ?dt) * ?dt \<le> 0"
    using Suc assms(3) assms(5)[of n]
    by (intro mult_nonpos_nonneg add_nonpos_nonpos) (simp_all add: mult_nonpos_nonneg)
  then have "vy (position ?q)
             + (if jump (keys ?q) \<and> isGrounded ?q then jumpForce ?q
                else vy (velocity ?q) + gravity ?q * ?dt) * ?dt \<le> groundLevel ?q"
    using Suc assms(4)[of n] by simp
  from updatePlayerMovement_lands[OF this, of "frame_camera (inp n)"]
  show ?case by simp
qed

text \<open>
  Claim C7. Every update in a grounded mode (first person or third person) ends with
  \<open>position.y \<ge> groundLevel\<close>. Starting on the ground (\<open>position.y = groundLevel\<close>,
  \<open>isGrounded\<close>) with a vertical velocity that is not upwards, under a gravity that is not
  upwards, and with the jump key never pressed, \<open>position.y\<close> is exactly \<open>groundLevel\<close>
  after every later update, whatever the frame times (none negative), the other keys and
  the yaw; from the first update on the player is grounded with vertical velocity 0.
\<close>

theorem ground_plane_invariant:
  "(currentMode c \<noteq> FREE_CAMERA \<longrightarrow>
      groundLevel (fst (Player_update dt c p)) = groundLevel p
      \<and> groundLevel p \<le> vy (position (fst (Player_update dt c p))))
   \<and> groundLevel p \<le> vy (position (updatePlayerMovement dt c p))
   \<and> (vy (position p) = groundLevel p \<and> isGrounded p
        \<and> vy (velocity p) \<le> 0 \<and> gravity p \<le> 0
        \<and> (\<forall>i. \<not> jump (frame_keys (inp i)) \<and> 0 \<le> frame_dt (inp i))
      \<longrightarrow> vy (position (groundedFrames inp n p)) = groundLevel p
          \<and> (0 < n \<longrightarrow> isGrounded (groundedFrames inp n p)
                \<and> vy (velocity (groundedFrames inp n p)) = 0))"
  using updatePlayerMovement_above_ground[of p dt c] grounded_stays[of p inp n]
  by (auto simp: Player_update_grounded)

theorem ground_plane_invariant_witness:
  "currentMode new_CameraController \<noteq> FREE_CAMERA
   \<and> 3 / 10 \<le> vy (position (fst (Player_update 1 new_CameraController new_Player)))
   \<and> vy (position (updatePlayerMovement 1 new_CameraController new_Player))
       = groundLevel (updatePlayerMovement 1 new_CameraController new_Player)
   \<and> isGrounded (updatePlayerMovement 1 new_CameraController new_Player)
   \<and> vy (velocity (updatePlayerMovement 1 new_CameraController new_Player)) \<le> 0
   \<and> gravity (updatePlayerMovement 1 new_CameraController new_Player) \<le> 0
   \<and> vy (position (groundedFrames
         (\<lambda>i. \<lparr> frame_dt = 1 / 60, frame_keys = no_keys, frame_camera = new_CameraController \<rparr>)
         3 (updatePlayerMovement 1 new_CameraController new_Player))) = 3 / 10"
proof -
  let ?p = "updatePlayerMovement 1 new_CameraController new_Player"
  let ?inp = "\<lambda>i::nat. \<lparr> frame_dt = 1 / 60, frame_keys = no_keys,
                          frame_camera = new_CameraController \<rparr>"
  have m: "currentMode new_CameraController \<noteq> FREE_CAMERA"
    by (simp add: new_CameraController_def)
  have a: "vy (position ?p) = groundLevel ?p" "isGrounded ?p" "vy (velocity ?p) \<le> 0"
    using updatePlayerMovement_lands[of new_Player 1 new_CameraController]
    by (simp_all add: new_Player_def no_keys_def)
  have g: "gravity ?p \<le> 0" "groundLevel ?p = 3 / 10"
    by (simp_all add: new_Player_def)
  have i: "\<forall>i. \<not> jump (frame_keys (?inp i)) \<and> 0 \<le> frame_dt (?inp i)"
    by (simp add: no_keys_def)
  have "vy (position (groundedFrames ?inp 3 ?p)) = groundLevel ?p"
    using ground_plane_invariant[where p = ?p and inp = ?inp and n = 3] a g(1) i by blast
  moreover have "groundLevel new_Player
      \<le> vy (position (fst (Player_update 1 new_CameraController new_Player)))"
    using ground_plane_invariant[where p = new_Player and c = new_CameraController and dt = 1] m
    by blast
  ultimately show ?thesis using m a g by (simp add: new_Player_def)
qed

subsection \<open>The grounded integrator: the horizontal part of one step\<close>

lemma sin_cos_unit: "sin y * sin y + cos y * cos y = (1::real)"
  using sin_cos_squared_add[of y] by (simp add: power2_eq_square)

lemma length_forward: "length_vec (Vector3 (- sin y) 0 (- cos y)) = 1"
  by (simp add: length_vec_def sin_cos_unit)

lemma length_diagonal:
  "length_vec (Vector3 (cos y - sin y) 0 (- cos y - sin y)) = sqrt 2"
proof -
  have "(cos y - sin y) * (cos y - sin y) + (- cos y - sin y) * (- cos y - sin y)
          = 2 * (sin y * sin y + cos y * cos y)"
    by (simp add: algebra_simps)
  then show ?thesis by (simp add: length_vec_def sin_cos_unit)
qed

lemma step_forward:
  assumes "forward (keys p)" "\<not> backward (keys p)" "\<not> left (keys p)" "\<not> right (keys p)"
    "\<not> sprint (keys p)"
  shows "vx (position (updatePlayerMovement dt c p))
           = vx (position p) + (- sin (yaw c)) * speed p * dt"
    and "vz (position (updatePlayerMovement dt c p))
           = vz (position p) + (- cos (yaw c)) * speed p * dt"
  using assms
  by (simp_all add: updatePlayerMovement_def Let_def getForwardVector_eq getRightVector_eq
        add_vec_def sub_vec_def multiplyScalar_def normalize_vec_def length_forward)

lemma step_diagonal:
  assumes "forward (keys p)" "\<not> backward (keys p)" "\<not> left (keys p)" "right (keys p)"
    "\<not> sprint (keys p)"
  shows "vx (position (updatePlayerMovement dt c p))
           = vx (position p) + ((cos (yaw c) - sin (yaw c)) / sqrt 2) * speed p * dt"
    and "vz (position (updatePlayerMovement dt c p))
           = vz (position p) + ((- cos (yaw c) - sin (yaw c)) / sqrt 2) * speed p * dt"
  using assms
  by (simp_all add: updatePlayerMovement_def Let_def getForwardVector_eq getRightVector_eq
        add_vec_def sub_vec_def multiplyScalar_def normalize_vec_def length_diagonal)

lemma horizontal_unit_step:
  assumes "a * a + b * b = (1::real)"
    and "vx q = vx p + a * s * dt" and "vz q = vz p + b * s * dt"
  shows "horizontalDistance p q = \<bar>s * dt\<bar>"
proof -
  have "(vx q - vx p)\<^sup>2 + (vz q - vz p)\<^sup>2 = (a * a + b * b) * (s * dt)\<^sup>2"
    using assms(2,3) by (simp add: power2_eq_square algebra_simps)
  then have "horizontalDistance p q = sqrt ((s * dt)\<^sup>2)"
    using assms(1) by (simp add: horizontalDistance_def)
  then show ?thesis by simp
qed

lemma forward_step_length:
  assumes "forward (keys p)" "\<not> backward (keys p)" "\<not> left (keys p)" "\<not> right (keys p)"
    "\<not> sprint (keys p)"
  shows "horizontalDistance (position p) (position (updatePlayerMovement dt c p))
           = \<bar>speed p * dt\<bar>"
proof (rule horizontal_unit_step[where a = "- sin (yaw c)" and b = "- cos (yaw c)"])
  show "- sin (yaw c) * - sin (yaw c) + - cos (yaw c) * - cos (yaw c) = 1"
    by (simp add: sin_cos_unit)
  show "vx (position (updatePlayerMovement dt c p))
          = vx (position p) + - sin (yaw c) * speed p * dt"
    using step_forward(1)[OF assms, of dt c] by simp
  show "vz (position (updatePlayerMovement dt c p))
          = vz (position p) + - cos (yaw c) * speed p * dt"
    using step_forward(2)[OF assms, of dt c] by simp
qed

lemma diagonal_step_length:
  assumes "forward (keys p)" "\<not> backward (keys p)" "\<not> left (keys p)" "right (keys p)"
    "\<not> sprint (keys p)"
  shows "horizontalDistance (position p) (position (updatePlayerMovement dt c p))
           = \<bar>speed p * dt\<bar>"
proof (rule horizontal_unit_step[where a = "(cos (yaw c) - sin (yaw c)) / sqrt 2"
      and b = "(- cos (yaw c) - sin (yaw c)) / sqrt 2"])
  let ?y = "yaw c"
  have "(cos ?y - sin ?y) * (cos ?y - sin ?y) + (- cos ?y - sin ?y) * (- cos ?y - sin ?y)
          = 2 * (sin ?y * sin ?y + cos ?y * cos ?y)"
    by (simp add: algebra_simps)
  then have "(cos ?y - sin ?y) * (cos ?y - sin ?y) + (- cos ?y - sin ?y) * (- cos ?y - sin ?y)
          = 2"
    by (simp add: sin_cos_unit)
  moreover have "(cos ?y - sin ?y) / sqrt 2 * ((cos ?y - sin ?y) / sqrt 2)
        + (- cos ?y - sin ?y) / sqrt 2 * ((- cos ?y - sin ?y) / sqrt 2)
      = ((cos ?y - sin ?y) * (cos ?y - sin ?y)
          + (- cos ?y - sin ?y) * (- cos ?y - sin ?y)) / 2"
    by (simp add: add_divide_distrib)
  ultimately show "(cos ?y - sin ?y) / sqrt 2 * ((cos ?y - sin ?y) / sqrt 2)
        + (- cos ?y - sin ?y) / sqrt 2 * ((- cos ?y - sin ?y) / sqrt 2) = 1"
    by simp
  show "vx (position (updatePlayerMovement dt c p))
          = vx (position p) + (cos ?y - sin ?y) / sqrt 2 * speed p * dt"
    using step_diagonal(1)[OF assms, of dt c] by simp
  show "vz (position (updatePlayerMovement dt c p))
          = vz (position p) + (- cos ?y - sin ?y) / sqrt 2 * speed p * dt"
    using step_diagonal(2)[OF assms, of dt c] by simp
qed

text \<open>
  Claim C8, as amended. Diagonal movement is not faster than movement along one axis. For
  every yaw, speed and frame time, the length of the horizontal displacement of one step
  of the grounded integrator with \<open>forward\<close> and \<open>right\<close> pressed is the length with
  \<open>forward\<close> alone pressed (no \<open>backward\<close>, \<open>left\<close> or \<open>sprint\<close> in either case), and both
  are the absolute value of \<open>speed * dt\<close>: \<open>speed * dt\<close> itself whenever that product is
  not negative.
\<close>

theorem diagonal_not_faster:
  "horizontalDistance (position p)
      (position (updatePlayerMovement dt c
         (p\<lparr> keys := k\<lparr> forward := True, backward := False, left := False,
                          right := True, sprint := False \<rparr> \<rparr>)))
     = horizontalDistance (position p)
        (position (updatePlayerMovement dt c
           (p\<lparr> keys := k\<lparr> forward := True, backward := False, left := False,
                            right := False, sprint := False \<rparr> \<rparr>)))
   \<and> horizontalDistance (position p)
        (position (updatePlayerMovement dt c
           (p\<lparr> keys := k\<lparr> forward := True, backward := False, left := False,
                            right := False, sprint := False \<rparr> \<rparr>)))
     = \<bar>speed p * dt\<bar>
   \<and> (0 \<le> speed p * dt \<longrightarrow>
        horizontalDistance (position p)
          (position (updatePlayerMovement dt c
             (p\<lparr> keys := k\<lparr> forward := True, backward := False, left := False,
                              right := True, sprint := False \<rparr> \<rparr>)))
          = speed p * dt
        \<and> horizontalDistance (position p)
          (position (updatePlayerMovement dt c
             (p\<lparr> keys := k\<lparr> forward := True, backward := False, left := False,
                              right := False, sprint := False \<rparr> \<rparr>)))
          = speed p * dt)"
proof -
  let ?pd = "p\<lparr> keys := k\<lparr> forward := True, backward := False, left := False,
                          right := True, sprint := False \<rparr> \<rparr>"
  let ?pf = "p\<lparr> keys := k\<lparr> forward := True, backward := False, left := False,
                          right := False, sprint := False \<rparr> \<rparr>"
  have f: "horizontalDistance (position p) (position (updatePlayerMovement dt c ?pf))
             = \<bar>speed p * dt\<bar>"
    using forward_step_length[of ?pf dt c] by simp
  have d: "horizontalDistance (position p) (position (updatePlayerMovement dt c ?pd))
             = \<bar>speed p * dt\<bar>"
    using diagonal_step_length[of ?pd dt c] by simp
  show ?thesis using f d by simp
qed

theorem diagonal_not_faster_witness:
  "0 \<le> speed new_Player * (1 / 60)
   \<and> horizontalDistance (position new_Player)
        (position (updatePlayerMovement (1 / 60) new_CameraController
           (new_Player\<lparr> keys := no_keys\<lparr> forward := True, backward := False, left := False,
                                            right := True, sprint := False \<rparr> \<rparr>)))
       = 1 / 200"
  using diagonal_not_faster[where p = new_Player and dt = "1 / 60" and c = new_CameraController
      and k = no_keys]
  by (simp add: new_Player_def)

text \<open>
  The claim as first stated, with \<open>speed * dt\<close> for every speed, fails where the product is
  negative: after \<open>setSpeed(-1)\<close>, one step of one second with \<open>forward\<close> alone pressed
  moves the player by a horizontal length of 1, while \<open>speed * dt\<close> is \<open>-1\<close>.
\<close>

theorem diagonal_not_faster_counterexample:
  "horizontalDistance (position (setSpeed (- 1) new_Player))
      (position (updatePlayerMovement 1 new_CameraController
         ((setSpeed (- 1) new_Player)\<lparr> keys := no_keys\<lparr> forward := True \<rparr> \<rparr>))) = 1
   \<and> speed (setSpeed (- 1) new_Player) * 1 = - 1
   \<and> horizontalDistance (position (setSpeed (- 1) new_Player))
        (position (updatePlayerMovement 1 new_CameraController
           ((setSpeed (- 1) new_Player)\<lparr> keys := no_keys\<lparr> forward := True \<rparr> \<rparr>)))
       \<noteq> speed (setSpeed (- 1) new_Player) * 1"
proof -
  let ?p = "(setSpeed (- 1) new_Player)\<lparr> keys := no_keys\<lparr> forward := True \<rparr> \<rparr>"
  have "horizontalDistance (position ?p) (position (updatePlayerMovement 1 new_CameraController ?p))
          = \<bar>speed ?p * 1\<bar>"
    by (rule forward_step_length) (simp_all add: no_keys_def)
  then show ?thesis by (simp add: setSpeed_def)
qed

subsection \<open>Jumping and falling\<close>

lemma groundedFrames_keys_irrelevant [simp]:
  "isGrounded (q\<lparr> keys := k \<rparr>) = isGrounded q"
  "position (q\<lparr> keys := k \<rparr>) = position q"
  "velocity (q\<lparr> keys := k \<rparr>) = velocity q"
  by simp_all

lemma airborne_run:
  assumes air: "\<not> isGrounded p1" and dts: "\<And>i. frame_dt (inp i) = dt"
    and above: "\<And>m. m \<le> n \<Longrightarrow>
        groundLevel p1 < vy (position p1) + real m * vy (velocity p1) * dt
                           + gravity p1 * dt * dt * (real m * (real m + 1) / 2)"
  shows "vy (position (groundedFrames inp n p1))
           = vy (position p1) + real n * vy (velocity p1) * dt
               + gravity p1 * dt * dt * (real n * (real n + 1) / 2)
         \<and> vy (velocity (groundedFrames inp n p1)) = vy (velocity p1) + real n * gravity p1 * dt
         \<and> \<not> isGrounded (groundedFrames inp n p1)"
  using above
proof (induction n)
  case 0
  then show ?case using air by simp
next
  case (Suc n)
  let ?q = "(groundedFrames inp n p1)\<lparr> keys := frame_keys (inp n) \<rparr>"
  let ?r = "groundedFrames inp n p1"
  have IH: "vy (position ?r) = vy (position p1) + real n * vy (velocity p1) * dt
               + gravity p1 * dt * dt * (real n * (real n + 1) / 2)"
    "vy (velocity ?r) = vy (velocity p1) + real n * gravity p1 * dt"
    "\<not> isGrounded ?r"
    using Suc.IH Suc.prems by simp_all
  have next_y: "vy (position ?q) + (vy (velocity ?q) + gravity ?q * dt) * dt
      = vy (position p1) + real (Suc n) * vy (velocity p1) * dt
          + gravity p1 * dt * dt * (real (Suc n) * (real (Suc n) + 1) / 2)"
    by (simp add: IH(1,2) field_simps)
  have "groundLevel ?q < vy (position ?q)
             + (if jump (keys ?q) \<and> isGrounded ?q then jumpForce ?q
                else vy (velocity ?q) + gravity ?q * dt) * dt"
    using Suc.prems[of "Suc n"] IH(3) next_y by simp
  from updatePlayerMovement_airborne[OF this, of "frame_camera (inp n)"] IH(3)
  have "vy (position (groundedFrames inp (Suc n) p1))
          = vy (position ?q) + (vy (velocity ?q) + gravity ?q * dt) * dt"
    and "vy (velocity (groundedFrames inp (Suc n) p1)) = vy (velocity ?q) + gravity ?q * dt"
    and "\<not> isGrounded (groundedFrames inp (Suc n) p1)"
    by (simp_all add: dts)
  then show ?case using next_y by (simp add: IH(2) field_simps)
qed

lemma landing_exists:
  fixes g dt y1 v1 G :: real
  assumes "g < 0" "0 < dt"
  shows "\<exists>n::nat. y1 + real n * v1 * dt + g * dt * dt * (real n * (real n + 1) / 2) \<le> G"
proof -
  define a where "a = - g * dt * dt / 2"
  define b where "b = v1 * dt"
  define c where "c = y1 - G"
  have a: "0 < a" using assms by (simp add: a_def mult_neg_pos)
  obtain n :: nat where n: "max 1 ((\<bar>b\<bar> + \<bar>c\<bar>) / a) < real n"
    using reals_Archimedean2 by blast
  then have n1: "1 \<le> real n" and "(\<bar>b\<bar> + \<bar>c\<bar>) / a < real n" by simp_all
  then have big: "\<bar>b\<bar> + \<bar>c\<bar> < a * real n"
    using a by (simp add: pos_divide_less_eq mult.commute)
  have "c \<le> \<bar>c\<bar> * real n"
  proof -
    have "\<bar>c\<bar> * 1 \<le> \<bar>c\<bar> * real n" using n1 by (intro mult_left_mono) simp_all
    then show ?thesis by simp
  qed
  moreover have "real n * b \<le> real n * \<bar>b\<bar>"
    by (intro mult_left_mono) simp_all
  moreover have "real n * (\<bar>b\<bar> + \<bar>c\<bar> - a * real n) \<le> 0"
    using big by (intro mult_nonneg_nonpos) simp_all
  moreover have "0 \<le> a * real n" using a by simp
  ultimately have "c + real n * b - a * (real n * (real n + 1)) \<le> 0"
    by (simp add: algebra_simps)
  moreover have "y1 + real n * v1 * dt + g * dt * dt * (real n * (real n + 1) / 2) - G
      = c + real n * b - a * (real n * (real n + 1))"
    by (simp add: a_def b_def c_def algebra_simps)
  ultimately have "y1 + real n * v1 * dt + g * dt * dt * (real n * (real n + 1) / 2) \<le> G"
    by simp
  then show ?thesis ..
qed

lemma jump_step:
  assumes "isGrounded p" "jump (keys p)"
    "groundLevel p < vy (position p) + jumpForce p * dt"
  shows "vy (velocity (updatePlayerMovement dt c p)) = jumpForce p"
    and "\<not> isGrounded (updatePlayerMovement dt c p)"
    and "vy (position (updatePlayerMovement dt c p)) = vy (position p) + jumpForce p * dt"
    and "groundLevel p < vy (position (updatePlayerMovement dt c p))"
proof -
  have "groundLevel p < vy (position p)
             + (if jump (keys p) \<and> isGrounded p then jumpForce p
                else vy (velocity p) + gravity p * dt) * dt"
    using assms by simp
  from updatePlayerMovement_airborne[OF this, of c] assms
  show "vy (velocity (updatePlayerMovement dt c p)) = jumpForce p"
    and "\<not> isGrounded (updatePlayerMovement dt c p)"
    and "vy (position (updatePlayerMovement dt c p)) = vy (position p) + jumpForce p * dt"
    and "groundLevel p < vy (position (updatePlayerMovement dt c p))"
    by simp_all
qed

lemma fall_lands:
  assumes air: "\<not> isGrounded p1" and high: "groundLevel p1 < vy (position p1)"
    and g: "gravity p1 < 0" and dt: "0 < dt" and dts: "\<And>i. frame_dt (inp i) = dt"
  shows "\<exists>n. (\<forall>m<n. \<not> isGrounded (groundedFrames inp m p1)
                  \<and> groundLevel p1 < vy (position (groundedFrames inp m p1))
                  \<and> vy (velocity (groundedFrames inp m p1))
                      = vy (velocity p1) + real m * gravity p1 * dt)
            \<and> vy (position (groundedFrames inp n p1)) = groundLevel p1
            \<and> isGrounded (groundedFrames inp n p1)
            \<and> vy (velocity (groundedFrames inp n p1)) = 0"
proof -
  let ?traj = "\<lambda>m::nat. vy (position p1) + real m * vy (velocity p1) * dt
                 + gravity p1 * dt * dt * (real m * (real m + 1) / 2)"
  define N where "N = (LEAST n. ?traj n \<le> groundLevel p1)"
  have ex: "\<exists>n. ?traj n \<le> groundLevel p1"
    using landing_exists[OF g dt] by blast
  then have N: "?traj N \<le> groundLevel p1"
    unfolding N_def by (rule LeastI_ex)
  have before: "groundLevel p1 < ?traj m" if "m < N" for m
    using not_less_Least[of m "\<lambda>n. ?traj n \<le> groundLevel p1"] that
    unfolding N_def by simp
  have "N \<noteq> 0" using N high by (cases "N = 0") simp_all
  then obtain k where k: "N = Suc k" by (cases N) simp_all
  have run: "vy (position (groundedFrames inp m p1)) = ?traj m
         \<and> vy (velocity (groundedFrames inp m p1)) = vy (velocity p1) + real m * gravity p1 * dt
         \<and> \<not> isGrounded (groundedFrames inp m p1)" if "m < N" for m
  proof (rule airborne_run[OF air dts])
    fix j assume "j \<le> m"
    then have "j < N" using that by simp
    then show "groundLevel p1 < ?traj j" by (rule before)
  qed
  let ?r = "groundedFrames inp k p1"
  let ?q = "?r\<lparr> keys := frame_keys (inp k) \<rparr>"
  have rk: "vy (position ?r) = ?traj k"
    "vy (velocity ?r) = vy (velocity p1) + real k * gravity p1 * dt"
    "\<not> isGrounded ?r"
    using run[of k] k by simp_all
  have "vy (position ?q) + (vy (velocity ?q) + gravity ?q * dt) * dt = ?traj (Suc k)"
    by (simp add: rk(1,2) field_simps)
  then have "vy (position ?q)
             + (if jump (keys ?q) \<and> isGrounded ?q then jumpForce ?q
                else vy (velocity ?q) + gravity ?q * dt) * dt \<le> groundLevel ?q"
    using N k rk(3) by simp
  from updatePlayerMovement_lands[OF this, of "frame_camera (inp k)"]
  have landed: "vy (position (groundedFrames inp N p1)) = groundLevel p1"
      "isGrounded (groundedFrames inp N p1)"
      "vy (velocity (groundedFrames inp N p1)) = 0"
    by (simp_all add: k dts)
  have "\<forall>m<N. \<not> isGrounded (groundedFrames inp m p1)
                  \<and> groundLevel p1 < vy (position (groundedFrames inp m p1))
                  \<and> vy (velocity (groundedFrames inp m p1))
                      = vy (velocity p1) + real m * gravity p1 * dt"
    using run before by simp
  then show ?thesis using landed by blast
qed

text \<open>
  Claim C6, as amended. Jump, then fall. With \<open>isGrounded\<close> set and the jump key pressed, a
  step of the grounded integrator that ends above the ground
  (\<open>position.y + jumpForce * dt > groundLevel\<close>, as it is for a positive frame time whenever
  the player is not below the ground) leaves \<open>velocity.y = jumpForce\<close> (positive) and
  \<open>isGrounded\<close> cleared. From there, under a negative gravity and frames of that fixed
  positive time, whatever keys are held and wherever the camera looks, there is a number
  \<open>n\<close> of further steps after which \<open>position.y = groundLevel\<close>, \<open>isGrounded\<close> is set and
  \<open>velocity.y = 0\<close>; before that step the player is in the air, above the ground, not
  grounded, with the vertical velocity \<open>jumpForce + m * gravity * dt\<close> of free fall: the
  ground collision zeroes the velocity at the landing step, and at no earlier step.
\<close>

theorem jump_then_fall:
  assumes "isGrounded p" and "jump (keys p)" and "0 < jumpForce p" and "gravity p < 0"
    and "0 < dt" and "groundLevel p < vy (position p) + jumpForce p * dt"
    and "\<forall>i. frame_dt (inp i) = dt"
  shows "vy (velocity (updatePlayerMovement dt c p)) = jumpForce p
         \<and> \<not> isGrounded (updatePlayerMovement dt c p)
         \<and> (currentMode c \<noteq> FREE_CAMERA \<longrightarrow>
              vy (velocity (fst (Player_update dt c p))) = jumpForce p
              \<and> \<not> isGrounded (fst (Player_update dt c p)))
         \<and> (\<exists>n. (\<forall>m<n. \<not> isGrounded (groundedFrames inp m (updatePlayerMovement dt c p))
                      \<and> groundLevel p
                          < vy (position (groundedFrames inp m (updatePlayerMovement dt c p)))
                      \<and> vy (velocity (groundedFrames inp m (updatePlayerMovement dt c p)))
                          = jumpForce p + real m * gravity p * dt)
                \<and> vy (position (groundedFrames inp n (updatePlayerMovement dt c p)))
                    = groundLevel p
                \<and> isGrounded (groundedFrames inp n (updatePlayerMovement dt c p))
                \<and> vy (velocity (groundedFrames inp n (updatePlayerMovement dt c p))) = 0)"
proof -
  let ?p1 = "updatePlayerMovement dt c p"
  note j = jump_step[OF assms(1,2,6), of c]
  have "\<exists>n. (\<forall>m<n. \<not> isGrounded (groundedFrames inp m ?p1)
                  \<and> groundLevel ?p1 < vy (position (groundedFrames inp m ?p1))
                  \<and> vy (velocity (groundedFrames inp m ?p1))
                      = vy (velocity ?p1) + real m * gravity ?p1 * dt)
            \<and> vy (position (groundedFrames inp n ?p1)) = groundLevel ?p1
            \<and> isGrounded (groundedFrames inp n ?p1)
            \<and> vy (velocity (groundedFrames inp n ?p1)) = 0"
  proof (rule fall_lands)
    show "\<not> isGrounded ?p1" by (rule j(2))
    show "groundLevel ?p1 < vy (position ?p1)" using j(4) by simp
    show "gravity ?p1 < 0" using assms(4) by simp
    show "0 < dt" by (rule assms(5))
    show "\<And>i. frame_dt (inp i) = dt" using assms(7) by simp
  qed
  then have fall: "\<exists>n. (\<forall>m<n. \<not> isGrounded (groundedFrames inp m ?p1)
                  \<and> groundLevel p < vy (position (groundedFrames inp m ?p1))
                  \<and> vy (velocity (groundedFrames inp m ?p1))
                      = jumpForce p + real m * gravity p * dt)
            \<and> vy (position (groundedFrames inp n ?p1)) = groundLevel p
            \<and> isGrounded (groundedFrames inp n ?p1)
            \<and> vy (velocity (groundedFrames inp n ?p1)) = 0"
    by (simp add: j(1))
  show ?thesis
    using j(1,2) fall by (simp add: Player_update_grounded)
qed

theorem jump_then_fall_witness:
  "isGrounded ((updatePlayerMovement 1 new_CameraController new_Player)
                 \<lparr> keys := no_keys\<lparr> jump := True \<rparr> \<rparr>)
   \<and> jump (keys ((updatePlayerMovement 1 new_CameraController new_Player)
                 \<lparr> keys := no_keys\<lparr> jump := True \<rparr> \<rparr>))
   \<and> 0 < jumpForce ((updatePlayerMovement 1 new_CameraController new_Player)
                 \<lparr> keys := no_keys\<lparr> jump := True \<rparr> \<rparr>)
   \<and> gravity ((updatePlayerMovement 1 new_CameraController new_Player)
                 \<lparr> keys := no_keys\<lparr> jump := True \<rparr> \<rparr>) < 0
   \<and> (0::real) < 1
   \<and> groundLevel ((updatePlayerMovement 1 new_CameraController new_Player)
                 \<lparr> keys := no_keys\<lparr> jump := True \<rparr> \<rparr>)
       < vy (position ((updatePlayerMovement 1 new_CameraController new_Player)
                 \<lparr> keys := no_keys\<lparr> jump := True \<rparr> \<rparr>))
         + jumpForce ((updatePlayerMovement 1 new_CameraController new_Player)
                 \<lparr> keys := no_keys\<lparr> jump := True \<rparr> \<rparr>) * 1
   \<and> vy (velocity (updatePlayerMovement 1 new_CameraController
          ((updatePlayerMovement 1 new_CameraController new_Player)
                 \<lparr> keys := no_keys\<lparr> jump := True \<rparr> \<rparr>))) = 3 / 10
   \<and> (\<exists>n. vy (position (groundedFrames
               (\<lambda>i. \<lparr> frame_dt = 1, frame_keys = no_keys, frame_camera = new_CameraController \<rparr>) n
               (updatePlayerMovement 1 new_CameraController
                  ((updatePlayerMovement 1 new_CameraController new_Player)
                     \<lparr> keys := no_keys\<lparr> jump := True \<rparr> \<rparr>)))) = 3 / 10
          \<and> isGrounded (groundedFrames
               (\<lambda>i. \<lparr> frame_dt = 1, frame_keys = no_keys, frame_camera = new_CameraController \<rparr>) n
               (updatePlayerMovement 1 new_CameraController
                  ((updatePlayerMovement 1 new_CameraController new_Player)
                     \<lparr> keys := no_keys\<lparr> jump := True \<rparr> \<rparr>)))
          \<and> vy (velocity (groundedFrames
               (\<lambda>i. \<lparr> frame_dt = 1, frame_keys = no_keys, frame_camera = new_CameraController \<rparr>) n
               (updatePlayerMovement 1 new_CameraController
                  ((updatePlayerMovement 1 new_CameraController new_Player)
                     \<lparr> keys := no_keys\<lparr> jump := True \<rparr> \<rparr>)))) = 0)"
proof -
  let ?p0 = "updatePlayerMovement 1 new_CameraController new_Player"
  let ?p = "?p0\<lparr> keys := no_keys\<lparr> jump := True \<rparr> \<rparr>"
  let ?inp = "\<lambda>i::nat. \<lparr> frame_dt = 1, frame_keys = no_keys,
                          frame_camera = new_CameraController \<rparr>"
  have a: "vy (position ?p0) = groundLevel ?p0" "isGrounded ?p0"
    using updatePlayerMovement_lands[of new_Player 1 new_CameraController]
    by (simp_all add: new_Player_def no_keys_def)
  have h: "isGrounded ?p" "jump (keys ?p)" "0 < jumpForce ?p" "gravity ?p < 0" "(0::real) < 1"
    "groundLevel ?p < vy (position ?p) + jumpForce ?p * 1" "\<forall>i. frame_dt (?inp i) = 1"
    using a by (simp_all add: new_Player_def)
  have v: "jumpForce ?p = 3 / 10" "groundLevel ?p = 3 / 10"
    by (simp_all add: new_Player_def)
  show ?thesis
    using jump_then_fall[OF h, of new_CameraController] h v by auto
qed

lemma sunk_run:
  "position landed_Player = Vector3 0 (3 / 10) 5"
  "isGrounded landed_Player"
  "camera_position landed_Camera = Vector3 0 (67 / 200) 5"
  "position sunk_Player = Vector3 0 (7 / 200) 5"
  "velocity sunk_Player = Vector3 0 0 0"
  "isGrounded sunk_Player"
  "keys sunk_Player = no_keys\<lparr> jump := True \<rparr>"
  "jumpForce sunk_Player = 3 / 10" "gravity sunk_Player = - 1" "groundLevel sunk_Player = 3 / 10"
  "currentMode sunk_Camera = FIRST_PERSON"
  by (simp_all add: landed_Player_def landed_Camera_def sunk_Player_def sunk_Camera_def
        Player_update_def updatePlayerMovement_def updateFreeCamera_def updateFirstPerson_def
        setMode_def CameraController_updateFreeCamera_def new_Player_def new_CameraController_def
        no_keys_def getForwardVector_def getRightVector_def applyEulerYXZ_def Vector3_def
        add_vec_def sub_vec_def multiplyScalar_def length_vec_def normalize_vec_def Let_def)

text \<open>
  The claim as first stated, for every state with \<open>isGrounded\<close> set, fails: a free-camera
  frame moves the player without touching \<open>isGrounded\<close>, so that back in first-person mode
  the flag is set while the player is below the ground, at \<open>y = 0.035\<close> under the ground
  level 0.3. A jump pressed then, in a frame of a sixtieth of a second, raises the player
  to \<open>0.04\<close> only, and the ground collision of the same step puts the player on the
  ground with \<open>velocity.y = 0\<close> and \<open>isGrounded\<close> set again.
\<close>

theorem jump_below_ground_counterexample:
  "currentMode sunk_Camera = FIRST_PERSON
   \<and> isGrounded sunk_Player \<and> jump (keys sunk_Player)
   \<and> 0 < jumpForce sunk_Player \<and> gravity sunk_Player < 0
   \<and> vy (position sunk_Player) = 7 / 200 \<and> groundLevel sunk_Player = 3 / 10
   \<and> vy (velocity (fst (Player_update (1 / 60) sunk_Camera sunk_Player))) = 0
   \<and> vy (velocity (fst (Player_update (1 / 60) sunk_Camera sunk_Player)))
       \<noteq> jumpForce sunk_Player
   \<and> isGrounded (fst (Player_update (1 / 60) sunk_Camera sunk_Player))
   \<and> vy (position (fst (Player_update (1 / 60) sunk_Camera sunk_Player))) = 3 / 10"
proof -
  have "vy (position sunk_Player)
          + (if jump (keys sunk_Player) \<and> isGrounded sunk_Player then jumpForce sunk_Player
             else vy (velocity sunk_Player) + gravity sunk_Player * (1 / 60)) * (1 / 60)
        \<le> groundLevel sunk_Player"
    by (simp add: sunk_run Vector3_def)
  from updatePlayerMovement_lands[OF this, of sunk_Camera]
  show ?thesis
    by (simp add: sunk_run Vector3_def Player_update_grounded)
qed

end
